theory Spec2Isabelle
  imports Main
begin

unbundle bit_operations_syntax

section \<open>The trombone controller sketch: data and arithmetic\<close>

text \<open>
  The sketch runs on an AVR Arduino: \<open>int\<close> has 16 bits, \<open>long\<close> has 32 bits and
  \<open>unsigned char\<close> has 8 bits. Values are modelled as HOL integers and the
  wrap-around of each width is written out where the code computes.
\<close>

definition wrap16 :: "int \<Rightarrow> int" where
  "wrap16 v = (v + 32768) mod 65536 - 32768"

definition wrap32 :: "int \<Rightarrow> int" where
  "wrap32 v = (v + 2147483648) mod 4294967296 - 2147483648"

definition u8 :: "int \<Rightarrow> int" where
  "u8 v = v mod 256"

definition u32 :: "int \<Rightarrow> int" where
  "u32 v = v mod 4294967296"

text \<open>C's division truncates towards zero.\<close>

definition c_div :: "int \<Rightarrow> int \<Rightarrow> int" where
  "c_div a b = sgn a * sgn b * (\<bar>a\<bar> div \<bar>b\<bar>)"

text \<open>
  Modelled from the spec: the macros \<open>abs\<close> and \<open>constrain\<close> of the Arduino core
  are used by the sketch and are not part of its source file. The spec has the change
  test \<open>abs(candidate - previous) > threshold\<close> (4.4) and the clamping of the raw breath
  into its range (4.3); the core defines \<open>abs(x)\<close> as \<open>((x)>0?(x):-(x))\<close> and
  \<open>constrain(amt,low,high)\<close> as \<open>((amt)<(low)?(low):((amt)>(high)?(high):(amt)))\<close>.
  The operand of \<open>abs\<close> is an \<open>int\<close> here, so its negation wraps at 16 bits.
\<close>

definition abs_int :: "int \<Rightarrow> int" where
  "abs_int x = (if x > 0 then x else wrap16 (- x))"

definition constrain :: "int \<Rightarrow> int \<Rightarrow> int \<Rightarrow> int" where
  "constrain amt low high = (if amt < low then low else if amt > high then high else amt)"

text \<open>
  Modelled from the spec: the Arduino core function \<open>map\<close> is called by the sketch and
  is not part of its source file. The spec (4.2, 4.3) describes it as the linear map of
  the input range onto the output range; the core computes it in \<open>long\<close> arithmetic as
  \<open>(x - in_min) * (out_max - out_min) / (in_max - in_min) + out_min\<close>.
\<close>

definition map_long :: "int \<Rightarrow> int \<Rightarrow> int \<Rightarrow> int \<Rightarrow> int \<Rightarrow> int" where
  "map_long x in_min in_max out_min out_max =
     wrap32 (wrap32 (c_div (wrap32 (wrap32 (x - in_min) * wrap32 (out_max - out_min)))
                           (wrap32 (in_max - in_min)))
             + out_min)"

subsection \<open>Configuration constants\<close>

definition DEBUG :: bool where "DEBUG = False"

definition FUNDAMENTAL :: int where "FUNDAMENTAL = 48"
definition OT_1 :: int where "OT_1 = 55"
definition OT_2 :: int where "OT_2 = 60"
definition OT_3 :: int where "OT_3 = 64"
definition OT_4 :: int where "OT_4 = 67"
definition OT_5 :: int where "OT_5 = 70"
definition OT_6 :: int where "OT_6 = 72"
definition OT_7 :: int where "OT_7 = 74"
definition OT_NONE :: int where "OT_NONE = - 1"

definition overtones :: "int list" where
  "overtones = [FUNDAMENTAL, OT_1, OT_2, OT_3, OT_4, OT_5, OT_6, OT_7]"

definition overtone_sw_values :: "int list" where
  "overtone_sw_values = [0x00, 0x01, 0x03, 0x07, 0x0f, 0x0e, 0x0c, 0x08]"

definition MIDI_VOLUME_CC :: int where "MIDI_VOLUME_CC = 7"
definition MIDI_BREATH_CC :: int where "MIDI_BREATH_CC = 2"
definition X_CC :: int where "X_CC = 16"
definition Y_CC :: int where "Y_CC = 17"

definition MIN_CC_INTERVAL :: int where "MIN_CC_INTERVAL = 10"
definition PB_SEND_THRESHOLD :: int where "PB_SEND_THRESHOLD = 10"
definition VOLUME_SEND_THRESHOLD :: int where "VOLUME_SEND_THRESHOLD = 1"
definition NOTE_ON_VOLUME_THRESHOLD :: int where "NOTE_ON_VOLUME_THRESHOLD = 60"
definition VOLUME_MAX_VALUE :: int where "VOLUME_MAX_VALUE = 500"

definition LPOT_NO_TOUCH_VALUE :: int where "LPOT_NO_TOUCH_VALUE = 1010"
definition LPOT_SLIDE_POS_1 :: int where "LPOT_SLIDE_POS_1 = 144"
definition LPOT_SLIDE_POS_7 :: int where "LPOT_SLIDE_POS_7 = 350"
definition MAX_PITCH_BEND_DOWN :: int where "MAX_PITCH_BEND_DOWN = 0"
definition PITCH_BEND_NEUTRAL :: int where "PITCH_BEND_NEUTRAL = c_div 16383 2"

text \<open>
  \<open>sizeof(overtone_sw_values)\<close> is the size of the table in bytes: eight \<open>int\<close>s of
  two bytes each.
\<close>

definition sizeof_int :: nat where "sizeof_int = 2"

definition sizeof_overtone_sw_values :: nat where
  "sizeof_overtone_sw_values = length overtone_sw_values * sizeof_int"

subsection \<open>Inputs, outputs and the global variables\<close>

datatype pin_level = LOW | HIGH

text \<open>\<open>digitalRead\<close> returns 0 for a low pin and 1 for a high one.\<close>

fun digitalRead :: "pin_level \<Rightarrow> int" where
  "digitalRead LOW = 0"
| "digitalRead HIGH = 1"

text \<open>C's logical negation of an \<open>int\<close>.\<close>

definition c_not :: "int \<Rightarrow> int" where
  "c_not v = (if v = 0 then 1 else 0)"

text \<open>
  What the sensors show during one pass of \<open>loop\<close>: the six switches, the four
  analog readings, and the two readings of the millisecond clock that the pass makes.
\<close>

record inputs =
  panic_pin :: pin_level
  meta_pin :: pin_level
  ot_sw_0 :: pin_level
  ot_sw_1 :: pin_level
  ot_sw_2 :: pin_level
  ot_sw_3 :: pin_level
  slide_raw :: int
  breath_raw :: int
  x_raw :: int
  y_raw :: int
  millis_check :: int
  millis_stamp :: int

text \<open>
  Everything the sketch hands to a device: the calls on \<open>MidiUart\<close>, with the
  arguments in the order of the call (channel, note, velocity; channel, controller,
  value), and the debug prints on \<open>Serial\<close>.
\<close>

datatype event =
    NoteOn int int int
  | NoteOff int int int
  | PitchBend int
  | CC int int int
  | SerialPrint string
  | SerialPrintInt int
  | SerialPrintlnInt int
  | SerialPrintlnHex int

text \<open>The global variables of the sketch, and the trace of device calls so far.\<close>

record state =
  ccSendTime :: int
  currentNote :: int
  currentPitchBend :: int
  currentVolume :: int
  currentXValue :: int
  currentYValue :: int
  slide_quant_mode :: int
  metaMode :: bool
  metaValue :: int
  out :: "event list"

definition initial_state :: state where
  "initial_state = \<lparr> ccSendTime = 0, currentNote = - 1,
     currentPitchBend = PITCH_BEND_NEUTRAL, currentVolume = 0, currentXValue = 0,
     currentYValue = 0, slide_quant_mode = 0, metaMode = False, metaValue = 0,
     out = [] \<rparr>"

text \<open>
  The search loop of \<open>getOvertoneFromOvertoneSwitches\<close> runs its index up to
  \<open>sizeof(overtone_sw_values)\<close>, past the eight entries of the table, and
  \<open>getMIDINote\<close> indexes \<open>overtones\<close> with what the search returns. The words
  that lie behind the two tables are not fixed by the sketch; they are a parameter:
  \<open>past_sw_values m k\<close> is the word read as \<open>overtone_sw_values[8 + k]\<close> and
  \<open>past_overtones m k\<close> the word read as \<open>overtones[8 + k]\<close>.
\<close>

record memory =
  past_sw_values :: "nat \<Rightarrow> int"
  past_overtones :: "nat \<Rightarrow> int"

definition read_overtone_sw_values :: "memory \<Rightarrow> nat \<Rightarrow> int" where
  "read_overtone_sw_values m i =
     (if i < length overtone_sw_values then overtone_sw_values ! i
      else past_sw_values m (i - length overtone_sw_values))"

definition read_overtones :: "memory \<Rightarrow> nat \<Rightarrow> int" where
  "read_overtones m i =
     (if i < length overtones then overtones ! i
      else past_overtones m (i - length overtones))"

section \<open>Reading the sensors\<close>

definition quantizeSlide :: "int \<Rightarrow> int" where
  "quantizeSlide val =
     (if val \<ge> 0 \<and> val \<le> 683 then 0
      else if val \<ge> 684 \<and> val \<le> 2048 then 1365
      else if val \<ge> 2049 \<and> val \<le> 3413 then 2731
      else if val \<ge> 3414 \<and> val \<le> 4779 then 4096
      else if val \<ge> 4780 \<and> val \<le> 6144 then 5461
      else if val \<ge> 6145 \<and> val \<le> 7509 then 6827
      else if val \<ge> 7510 \<and> val \<le> 8192 then 8191
      else 0)"

definition getPitchBendFromLinearPot :: "inputs \<Rightarrow> state \<Rightarrow> int" where
  "getPitchBendFromLinearPot inp s =
     (let slideVal = slide_raw inp in
      if slideVal > LPOT_NO_TOUCH_VALUE then - 1
      else
        let constrainedVal = slideVal;
            constrainedVal =
              (if constrainedVal > LPOT_SLIDE_POS_7 then LPOT_SLIDE_POS_7 else constrainedVal);
            constrainedVal =
              (if constrainedVal < LPOT_SLIDE_POS_1 then LPOT_SLIDE_POS_1 else constrainedVal);
            pbVal = wrap16 (map_long constrainedVal LPOT_SLIDE_POS_1 LPOT_SLIDE_POS_7
                              PITCH_BEND_NEUTRAL MAX_PITCH_BEND_DOWN);
            pbVal = (if pbVal < 0 then 0 else pbVal);
            pbVal = (if slide_quant_mode s \<noteq> 0 then quantizeSlide pbVal else pbVal)
        in pbVal)"

definition getPitchBend :: "inputs \<Rightarrow> state \<Rightarrow> int" where
  "getPitchBend inp s = getPitchBendFromLinearPot inp s"

definition getRawOvertoneSwitchValue :: "inputs \<Rightarrow> int" where
  "getRawOvertoneSwitchValue inp =
     (let val = u8 (c_not (digitalRead (ot_sw_0 inp)));
          val = u8 (push_bit 1 val OR c_not (digitalRead (ot_sw_1 inp)));
          val = u8 (push_bit 1 val OR c_not (digitalRead (ot_sw_2 inp)));
          val = u8 (push_bit 1 val OR c_not (digitalRead (ot_sw_3 inp)))
      in val)"

text \<open>
  The \<open>for\<close> loop of \<open>getOvertoneFromOvertoneSwitches\<close>, from index \<open>i\<close> on: the
  first index whose table word equals \<open>val\<close>, or -1 when the index reaches
  \<open>sizeof(overtone_sw_values)\<close>.
\<close>

function overtone_search :: "memory \<Rightarrow> int \<Rightarrow> nat \<Rightarrow> int" where
  "overtone_search m val i =
     (if i < sizeof_overtone_sw_values then
        (if val = read_overtone_sw_values m i then int i
         else overtone_search m val (Suc i))
      else - 1)"
  by pat_completeness auto
termination
  by (relation "measure (\<lambda>(m, val, i). sizeof_overtone_sw_values - i)") auto

declare overtone_search.simps [simp del]

definition getOvertoneFromOvertoneSwitches :: "memory \<Rightarrow> inputs \<Rightarrow> int" where
  "getOvertoneFromOvertoneSwitches m inp =
     (let val = getRawOvertoneSwitchValue inp in overtone_search m val 0)"

definition getMIDINote :: "memory \<Rightarrow> inputs \<Rightarrow> state \<Rightarrow> int" where
  "getMIDINote m inp s =
     (let ot = getOvertoneFromOvertoneSwitches m inp in
      if - 1 = ot then currentNote s else read_overtones m (nat ot))"

definition getVolumeFromBreathSensor :: "inputs \<Rightarrow> int" where
  "getVolumeFromBreathSensor inp =
     (let volRawVal = breath_raw inp in
      if volRawVal < NOTE_ON_VOLUME_THRESHOLD then 0
      else wrap16 (map_long (constrain volRawVal NOTE_ON_VOLUME_THRESHOLD VOLUME_MAX_VALUE)
                     NOTE_ON_VOLUME_THRESHOLD VOLUME_MAX_VALUE 0 127))"

definition getVolume :: "inputs \<Rightarrow> int" where
  "getVolume inp = getVolumeFromBreathSensor inp"

definition getXValue :: "inputs \<Rightarrow> int" where
  "getXValue inp = x_raw inp"

definition getYValue :: "inputs \<Rightarrow> int" where
  "getYValue inp = y_raw inp"

section \<open>Sending\<close>

definition emit :: "event \<Rightarrow> state \<Rightarrow> state" where
  "emit e s = s\<lparr>out := out s @ [e]\<rparr>"

definition sendNoteOn :: "int \<Rightarrow> int \<Rightarrow> int \<Rightarrow> bool \<Rightarrow> state \<Rightarrow> state" where
  "sendNoteOn note vel chan debug s =
     (if debug then emit (SerialPrintlnInt note) (emit (SerialPrint ''ON '') s)
      else emit (NoteOn chan note vel) s)"

definition sendNoteOff :: "int \<Rightarrow> int \<Rightarrow> int \<Rightarrow> bool \<Rightarrow> state \<Rightarrow> state" where
  "sendNoteOff note vel chan debug s =
     (if debug then emit (SerialPrintlnInt note) (emit (SerialPrint ''OFF '') s)
      else emit (NoteOff chan note vel) s)"

definition sendPitchBend :: "int \<Rightarrow> bool \<Rightarrow> state \<Rightarrow> state" where
  "sendPitchBend pitchBend debug s =
     (if - 1 \<noteq> pitchBend then
        (if abs_int (wrap16 (currentPitchBend s - pitchBend)) > PB_SEND_THRESHOLD then
           (let s1 = s\<lparr>currentPitchBend := pitchBend\<rparr> in
            if debug then emit (SerialPrintlnInt pitchBend) (emit (SerialPrint ''BEND '') s1)
            else emit (PitchBend pitchBend) s1)
         else s)
      else s)"

definition sendBreathController :: "int \<Rightarrow> int \<Rightarrow> bool \<Rightarrow> state \<Rightarrow> state" where
  "sendBreathController volume chan debug s =
     (if abs_int (wrap16 (currentVolume s - volume)) > VOLUME_SEND_THRESHOLD then
        (let s1 = s\<lparr>currentVolume := volume\<rparr> in
         if debug then emit (SerialPrintlnInt volume) (emit (SerialPrint ''BC '') s1)
         else emit (CC chan MIDI_BREATH_CC volume) s1)
      else s)"

definition sendXYControllers :: "int \<Rightarrow> int \<Rightarrow> int \<Rightarrow> bool \<Rightarrow> state \<Rightarrow> state" where
  "sendXYControllers x y chan debug s =
     (let mappedXValue = wrap16 (map_long x 0 1024 0 127);
          mappedYValue = wrap16 (map_long y 0 1024 0 127);
          s1 = (if abs_int (wrap16 (currentXValue s - mappedXValue)) > VOLUME_SEND_THRESHOLD then
                  (let t = s\<lparr>currentXValue := mappedXValue\<rparr> in
                   if debug then emit (SerialPrintInt mappedXValue) (emit (SerialPrint ''X '') t)
                   else emit (CC chan X_CC mappedXValue) t)
                else s)
      in if abs_int (wrap16 (currentYValue s1 - mappedYValue)) > VOLUME_SEND_THRESHOLD then
           (let t = s1\<lparr>currentYValue := mappedYValue\<rparr> in
            if debug then emit (SerialPrintInt mappedYValue) (emit (SerialPrint ''Y '') t)
            else emit (CC chan Y_CC mappedYValue) t)
         else s1)"

text \<open>The loop of \<open>allNotesOff\<close> from index \<open>i\<close> on.\<close>

function allNotesOff_from :: "nat \<Rightarrow> state \<Rightarrow> state" where
  "allNotesOff_from i s =
     (if i < 128 then allNotesOff_from (Suc i) (sendNoteOff (int i) 0 1 DEBUG s) else s)"
  by pat_completeness auto
termination
  by (relation "measure (\<lambda>(i, s). 128 - i)") auto

declare allNotesOff_from.simps [simp del]

definition allNotesOff :: "state \<Rightarrow> state" where
  "allNotesOff s = allNotesOff_from 0 s"

definition sendMetaCommand :: "int \<Rightarrow> int \<Rightarrow> state \<Rightarrow> state" where
  "sendMetaCommand chan val s =
     (if DEBUG then emit (SerialPrintlnHex (metaValue s)) (emit (SerialPrint ''META '') s)
      else emit (NoteOn chan val 127) s)"

section \<open>One pass of the main loop\<close>

text \<open>The three consecutive blocks of \<open>loop\<close>: the panic switch, the meta switch, the note.\<close>

definition loop_panic :: "inputs \<Rightarrow> state \<Rightarrow> state" where
  "loop_panic inp s = (if digitalRead (panic_pin inp) = 0 then allNotesOff s else s)"

definition loop_meta :: "inputs \<Rightarrow> state \<Rightarrow> state" where
  "loop_meta inp s =
     (if digitalRead (meta_pin inp) = 0 then
        s\<lparr>metaMode := True, metaValue := getRawOvertoneSwitchValue inp\<rparr>
      else if metaMode s = True then
        (let s1 = s\<lparr>metaMode := False\<rparr> in sendMetaCommand 1 (metaValue s1) s1)
      else s)"

definition loop_note :: "memory \<Rightarrow> inputs \<Rightarrow> state \<Rightarrow> state" where
  "loop_note m inp s =
     (let pb = getPitchBend inp s;
          note = getMIDINote m inp s;
          volume = getVolume inp;
          x = getXValue inp;
          y = getYValue inp
      in
      if - 1 \<noteq> currentNote s \<and> 0 = volume then
        (sendNoteOff (currentNote s) 0 0 DEBUG s)\<lparr>currentNote := - 1\<rparr>
      else if - 1 = currentNote s \<and> 0 \<noteq> volume \<and> - 1 \<noteq> note then
        (sendNoteOn note 127 0 DEBUG
          (sendXYControllers x y 0 DEBUG
            (sendPitchBend pb DEBUG
              (sendBreathController volume 0 DEBUG s))))\<lparr>currentNote := note\<rparr>
      else if - 1 \<noteq> currentNote s \<and> note \<noteq> currentNote s then
        (sendNoteOn note 127 0 DEBUG
          (sendXYControllers x y 0 DEBUG
            (sendBreathController volume 0 DEBUG
              (sendPitchBend pb DEBUG
                (sendNoteOff (currentNote s) 0 0 DEBUG s)))))\<lparr>currentNote := note\<rparr>
      else if - 1 \<noteq> currentNote s then
        (if millis_check inp > u32 (wrap32 (ccSendTime s + MIN_CC_INTERVAL)) then
           (sendXYControllers x y 0 DEBUG
             (sendBreathController volume 0 DEBUG
               (sendPitchBend pb DEBUG s)))\<lparr>ccSendTime := wrap32 (millis_stamp inp)\<rparr>
         else s)
      else s)"

definition loop :: "memory \<Rightarrow> inputs \<Rightarrow> state \<Rightarrow> state" where
  "loop m inp s = loop_note m inp (loop_meta inp (loop_panic inp s))"

section \<open>Notions used to state the properties\<close>

text \<open>The device calls that lead from the trace of \<open>s\<close> to the trace of \<open>s'\<close>.\<close>

definition new_events :: "state \<Rightarrow> state \<Rightarrow> event list" where
  "new_events s s' = drop (length (out s)) (out s')"

text \<open>The device calls made by one pass of \<open>loop\<close> started in \<open>s\<close>.\<close>

definition emitted :: "memory \<Rightarrow> inputs \<Rightarrow> state \<Rightarrow> event list" where
  "emitted m inp s = new_events s (loop m inp s)"

text \<open>A run of passes, one for each element of a list of inputs.\<close>

fun run :: "memory \<Rightarrow> inputs list \<Rightarrow> state \<Rightarrow> state" where
  "run m [] s = s"
| "run m (inp # inps) s = run m inps (loop m inp s)"

text \<open>
  The test of the send functions, \<open>abs(current - candidate) > threshold\<close>, the
  message it lets through and the value it leaves in the cache.
\<close>

definition exceeds :: "int \<Rightarrow> int \<Rightarrow> int \<Rightarrow> bool" where
  "exceeds threshold current candidate = (threshold < abs_int (wrap16 (current - candidate)))"

definition when_sent :: "bool \<Rightarrow> event \<Rightarrow> event list" where
  "when_sent b e = (if b then [e] else [])"

definition when_set :: "bool \<Rightarrow> int \<Rightarrow> int \<Rightarrow> int" where
  "when_set b v c = (if b then v else c)"

text \<open>The value \<open>map(x, 0, 1024, 0, 127)\<close> that \<open>sendXYControllers\<close> stores in an \<open>int\<close>.\<close>

definition mapped :: "int \<Rightarrow> int" where
  "mapped x = wrap16 (map_long x 0 1024 0 127)"

text \<open>The 128 note-offs of \<open>allNotesOff\<close>: notes 0 to 127 in order, channel 1, velocity 0.\<close>

definition all_note_offs :: "event list" where
  "all_note_offs = map (\<lambda>k. NoteOff 1 (int k) 0) [0..<128]"

text \<open>
  The meta command is a note-on on channel 1; the notes of the instrument are on
  channel 0.
\<close>

fun is_command :: "event \<Rightarrow> bool" where
  "is_command (NoteOn chan note vel) = (chan = 1)"
| "is_command _ = False"

text \<open>The value of the last message of a kind in a trace, if there is one.\<close>

fun pitch_bend_of :: "event \<Rightarrow> int option" where
  "pitch_bend_of (PitchBend v) = Some v"
| "pitch_bend_of _ = None"

fun cc_of :: "int \<Rightarrow> event \<Rightarrow> int option" where
  "cc_of n (CC chan c v) = (if c = n then Some v else None)"
| "cc_of n _ = None"

fun last_sent :: "(event \<Rightarrow> int option) \<Rightarrow> event list \<Rightarrow> int option" where
  "last_sent p [] = None"
| "last_sent p (e # es) = (case last_sent p es of Some v \<Rightarrow> Some v | None \<Rightarrow> p e)"

text \<open>The number of messages of a kind in a trace.\<close>

definition sent_count :: "(event \<Rightarrow> int option) \<Rightarrow> event list \<Rightarrow> nat" where
  "sent_count p es = length (filter (\<lambda>e. p e \<noteq> None) es)"

text \<open>
  Each cache holds the value of the last message sent for its signal, or its initial
  value when no such message has been sent.
\<close>

definition caches_track_sent :: "state \<Rightarrow> bool" where
  "caches_track_sent s =
     (currentPitchBend s = (case last_sent pitch_bend_of (out s) of
                              Some v \<Rightarrow> v | None \<Rightarrow> PITCH_BEND_NEUTRAL)
      \<and> currentVolume s = (case last_sent (cc_of MIDI_BREATH_CC) (out s) of
                             Some v \<Rightarrow> v | None \<Rightarrow> 0)
      \<and> currentXValue s = (case last_sent (cc_of X_CC) (out s) of Some v \<Rightarrow> v | None \<Rightarrow> 0)
      \<and> currentYValue s = (case last_sent (cc_of Y_CC) (out s) of Some v \<Rightarrow> v | None \<Rightarrow> 0))"

text \<open>
  Inputs and memory for the examples: no switch pressed, no breath, the slide not
  touched; and a memory whose words behind the two tables all read -1.
\<close>

definition idle_inputs :: inputs where
  "idle_inputs = \<lparr> panic_pin = HIGH, meta_pin = HIGH, ot_sw_0 = HIGH, ot_sw_1 = HIGH,
     ot_sw_2 = HIGH, ot_sw_3 = HIGH, slide_raw = 1023, breath_raw = 0, x_raw = 0, y_raw = 0,
     millis_check = 1000, millis_stamp = 1000 \<rparr>"

definition erased_memory :: memory where
  "erased_memory = \<lparr> past_sw_values = (\<lambda>k. - 1), past_overtones = (\<lambda>k. - 1) \<rparr>"


section \<open>Arithmetic of the fixed-width values\<close>

lemma wrap16_id: "- 32768 \<le> v \<Longrightarrow> v < 32768 \<Longrightarrow> wrap16 v = v"
  by (simp add: wrap16_def)

lemma wrap32_id: "- 2147483648 \<le> v \<Longrightarrow> v < 2147483648 \<Longrightarrow> wrap32 v = v"
  by (simp add: wrap32_def)

lemma PITCH_BEND_NEUTRAL_value: "PITCH_BEND_NEUTRAL = 8191"
  by (simp add: PITCH_BEND_NEUTRAL_def c_div_def)

lemma c_div_nonpos_pos: "a \<le> 0 \<Longrightarrow> 0 < b \<Longrightarrow> c_div a b = - ((- a) div b)"
  by (cases "a = 0") (simp_all add: c_div_def sgn_if)

lemma exceeds_imp_far:
  assumes "exceeds T c v" "0 \<le> T" "T < 32768"
  shows "T < \<bar>v - c\<bar>"
proof (rule ccontr)
  assume "\<not> T < \<bar>v - c\<bar>"
  then have near: "\<bar>c - v\<bar> \<le> T" by simp
  then have w: "wrap16 (c - v) = c - v" using assms(3) by (intro wrap16_id) simp_all
  have "abs_int (c - v) \<le> T"
  proof (cases "c - v > 0")
    case True
    then show ?thesis using near by (simp add: abs_int_def)
  next
    case False
    then have "wrap16 (- (c - v)) = - (c - v)" using near assms(3) by (intro wrap16_id) simp_all
    then show ?thesis using False near by (simp add: abs_int_def)
  qed
  then show False using assms(1) by (simp add: exceeds_def w)
qed

lemma exceeds_far: "exceeds PB_SEND_THRESHOLD c v \<Longrightarrow> PB_SEND_THRESHOLD < \<bar>v - c\<bar>"
  "exceeds VOLUME_SEND_THRESHOLD c v \<Longrightarrow> VOLUME_SEND_THRESHOLD < \<bar>v - c\<bar>"
  by (rule exceeds_imp_far, simp_all add: PB_SEND_THRESHOLD_def VOLUME_SEND_THRESHOLD_def)+

lemma near_not_exceeds:
  "\<bar>v - c\<bar> \<le> PB_SEND_THRESHOLD \<Longrightarrow> \<not> exceeds PB_SEND_THRESHOLD c v"
  "\<bar>v - c\<bar> \<le> VOLUME_SEND_THRESHOLD \<Longrightarrow> \<not> exceeds VOLUME_SEND_THRESHOLD c v"
  using exceeds_far(1) [of c v] exceeds_far(2) [of c v] by auto

section \<open>What the send functions do\<close>

lemma new_events_append [simp]: "new_events s (s'\<lparr>out := out s @ e\<rparr>) = e"
  by (simp add: new_events_def)

lemma new_events_self [simp]: "new_events s s = []"
  by (simp add: new_events_def)

lemma new_events_same_out [simp]: "out s' = out s \<Longrightarrow> new_events s s' = []"
  by (simp add: new_events_def)

lemma new_events_meta [simp]:
  "new_events (s\<lparr>metaMode := a\<rparr>) t = new_events s t"
  "new_events s (t\<lparr>metaMode := a\<rparr>) = new_events s t"
  "new_events (s\<lparr>metaValue := b\<rparr>) t = new_events s t"
  "new_events s (t\<lparr>metaValue := b\<rparr>) = new_events s t"
  by (simp_all add: new_events_def)

lemma new_events_eqI: "out s' = out s @ e \<Longrightarrow> new_events s s' = e"
  by (simp add: new_events_def)

lemma sendNoteOn_DEBUG: "sendNoteOn n v c DEBUG s = s\<lparr>out := out s @ [NoteOn c n v]\<rparr>"
  by (simp add: sendNoteOn_def DEBUG_def emit_def)

lemma sendNoteOff_DEBUG: "sendNoteOff n v c DEBUG s = s\<lparr>out := out s @ [NoteOff c n v]\<rparr>"
  by (simp add: sendNoteOff_def DEBUG_def emit_def)

lemma sendPitchBend_DEBUG:
  "sendPitchBend pb DEBUG s =
     s\<lparr>currentPitchBend :=
         when_set (pb \<noteq> - 1 \<and> exceeds PB_SEND_THRESHOLD (currentPitchBend s) pb) pb (currentPitchBend s),
       out := out s @
         when_sent (pb \<noteq> - 1 \<and> exceeds PB_SEND_THRESHOLD (currentPitchBend s) pb) (PitchBend pb)\<rparr>"
  by (simp add: sendPitchBend_def DEBUG_def emit_def Let_def exceeds_def when_sent_def when_set_def)

lemma sendBreathController_DEBUG:
  "sendBreathController v c DEBUG s =
     s\<lparr>currentVolume := when_set (exceeds VOLUME_SEND_THRESHOLD (currentVolume s) v) v (currentVolume s),
       out := out s @
         when_sent (exceeds VOLUME_SEND_THRESHOLD (currentVolume s) v) (CC c MIDI_BREATH_CC v)\<rparr>"
  by (simp add: sendBreathController_def DEBUG_def emit_def Let_def exceeds_def when_sent_def when_set_def)

lemma sendXYControllers_DEBUG:
  "sendXYControllers x y c DEBUG s =
     s\<lparr>currentXValue :=
         when_set (exceeds VOLUME_SEND_THRESHOLD (currentXValue s) (mapped x)) (mapped x) (currentXValue s),
       currentYValue :=
         when_set (exceeds VOLUME_SEND_THRESHOLD (currentYValue s) (mapped y)) (mapped y) (currentYValue s),
       out := out s @
         when_sent (exceeds VOLUME_SEND_THRESHOLD (currentXValue s) (mapped x)) (CC c X_CC (mapped x)) @
         when_sent (exceeds VOLUME_SEND_THRESHOLD (currentYValue s) (mapped y)) (CC c Y_CC (mapped y))\<rparr>"
  by (simp add: sendXYControllers_def DEBUG_def emit_def Let_def exceeds_def when_sent_def
      when_set_def mapped_def)

lemma sendMetaCommand_eq: "sendMetaCommand c v s = s\<lparr>out := out s @ [NoteOn c v 127]\<rparr>"
  by (simp add: sendMetaCommand_def DEBUG_def emit_def)

lemma allNotesOff_from_eq:
  "i \<le> 128 \<Longrightarrow>
   allNotesOff_from i s = s\<lparr>out := out s @ map (\<lambda>k. NoteOff 1 (int k) 0) [i..<128]\<rparr>"
proof (induction i s rule: allNotesOff_from.induct)
  case (1 i s)
  show ?case
  proof (cases "i < 128")
    case True
    then have "allNotesOff_from i s = allNotesOff_from (Suc i) (sendNoteOff (int i) 0 1 DEBUG s)"
      by (subst allNotesOff_from.simps) simp
    also have "\<dots> = (sendNoteOff (int i) 0 1 DEBUG s)\<lparr>out :=
        out (sendNoteOff (int i) 0 1 DEBUG s) @ map (\<lambda>k. NoteOff 1 (int k) 0) [Suc i..<128]\<rparr>"
      using True by (intro "1.IH") simp_all
    also have "\<dots> = s\<lparr>out := out s @ map (\<lambda>k. NoteOff 1 (int k) 0) [i..<128]\<rparr>"
      using True by (simp add: sendNoteOff_DEBUG upt_conv_Cons)
    finally show ?thesis .
  next
    case False
    with "1.prems" have "i = 128" by simp
    then show ?thesis by (subst allNotesOff_from.simps) simp
  qed
qed

lemma allNotesOff_eq: "allNotesOff s = s\<lparr>out := out s @ all_note_offs\<rparr>"
  by (simp add: allNotesOff_def allNotesOff_from_eq all_note_offs_def)

lemma all_note_offs_nth: "k < 128 \<Longrightarrow> all_note_offs ! k = NoteOff 1 (int k) 0"
  by (simp add: all_note_offs_def)

lemma all_note_offs_length: "length all_note_offs = 128"
  by (simp add: all_note_offs_def)

lemma in_all_note_offs:
  "x \<in> set all_note_offs \<longleftrightarrow> (\<exists>k<128. x = NoteOff 1 (int k) 0)"
  by (auto simp: all_note_offs_def)

lemma all_note_offs_no_command: "filter is_command all_note_offs = []"
  by (simp add: all_note_offs_def)

lemma filter_when_sent: "\<not> P e \<Longrightarrow> filter P (when_sent b e) = []"
  by (simp add: when_sent_def)

lemma in_when_sent [simp]: "x \<in> set (when_sent b e) \<longleftrightarrow> b \<and> x = e"
  by (auto simp: when_sent_def)

lemma cc_numbers:
  "MIDI_BREATH_CC \<noteq> X_CC" "MIDI_BREATH_CC \<noteq> Y_CC" "X_CC \<noteq> Y_CC"
  "X_CC \<noteq> MIDI_BREATH_CC" "Y_CC \<noteq> MIDI_BREATH_CC" "Y_CC \<noteq> X_CC"
  by (simp_all add: MIDI_BREATH_CC_def X_CC_def Y_CC_def)

section \<open>What one pass does\<close>

lemma loop_panic_eq:
  "loop_panic inp s = (if panic_pin inp = LOW then s\<lparr>out := out s @ all_note_offs\<rparr> else s)"
  by (cases "panic_pin inp") (simp_all add: loop_panic_def allNotesOff_eq)

lemma loop_meta_eq:
  "loop_meta inp s =
     (if meta_pin inp = LOW then s\<lparr>metaMode := True, metaValue := getRawOvertoneSwitchValue inp\<rparr>
      else if metaMode s then s\<lparr>metaMode := False, out := out s @ [NoteOn 1 (metaValue s) 127]\<rparr>
      else s)"
  by (cases "meta_pin inp") (simp_all add: loop_meta_def sendMetaCommand_eq Let_def)

lemma getPitchBend_frame [simp]:
  "getPitchBend inp (s\<lparr>out := e\<rparr>) = getPitchBend inp s"
  "getPitchBend inp (s\<lparr>metaMode := a\<rparr>) = getPitchBend inp s"
  "getPitchBend inp (s\<lparr>metaValue := b\<rparr>) = getPitchBend inp s"
  "getPitchBend (inp\<lparr>panic_pin := p\<rparr>) s = getPitchBend inp s"
  "getPitchBend (inp\<lparr>meta_pin := p\<rparr>) s = getPitchBend inp s"
  by (simp_all add: getPitchBend_def getPitchBendFromLinearPot_def Let_def)

lemma getOvertone_frame [simp]:
  "getRawOvertoneSwitchValue (inp\<lparr>panic_pin := p\<rparr>) = getRawOvertoneSwitchValue inp"
  "getRawOvertoneSwitchValue (inp\<lparr>meta_pin := p\<rparr>) = getRawOvertoneSwitchValue inp"
  "getOvertoneFromOvertoneSwitches m (inp\<lparr>panic_pin := p\<rparr>) = getOvertoneFromOvertoneSwitches m inp"
  "getOvertoneFromOvertoneSwitches m (inp\<lparr>meta_pin := p\<rparr>) = getOvertoneFromOvertoneSwitches m inp"
  by (simp_all add: getOvertoneFromOvertoneSwitches_def getRawOvertoneSwitchValue_def Let_def)

lemma getMIDINote_frame [simp]:
  "getMIDINote m inp (s\<lparr>out := e\<rparr>) = getMIDINote m inp s"
  "getMIDINote m inp (s\<lparr>metaMode := a\<rparr>) = getMIDINote m inp s"
  "getMIDINote m inp (s\<lparr>metaValue := b\<rparr>) = getMIDINote m inp s"
  "getMIDINote m (inp\<lparr>panic_pin := p\<rparr>) s = getMIDINote m inp s"
  "getMIDINote m (inp\<lparr>meta_pin := p\<rparr>) s = getMIDINote m inp s"
  by (simp_all add: getMIDINote_def Let_def)

lemma getVolume_frame [simp]:
  "getVolume (inp\<lparr>panic_pin := p\<rparr>) = getVolume inp"
  "getVolume (inp\<lparr>meta_pin := p\<rparr>) = getVolume inp"
  "getXValue (inp\<lparr>panic_pin := p\<rparr>) = getXValue inp"
  "getXValue (inp\<lparr>meta_pin := p\<rparr>) = getXValue inp"
  "getYValue (inp\<lparr>panic_pin := p\<rparr>) = getYValue inp"
  "getYValue (inp\<lparr>meta_pin := p\<rparr>) = getYValue inp"
  by (simp_all add: getVolume_def getVolumeFromBreathSensor_def getXValue_def getYValue_def Let_def)

lemma getPitchBend_quant:
  "slide_quant_mode s = slide_quant_mode t \<Longrightarrow> getPitchBend inp s = getPitchBend inp t"
  by (simp add: getPitchBend_def getPitchBendFromLinearPot_def Let_def)

text \<open>The events that the controller flush of a pass may add, and the caches it leaves.\<close>

lemma loop_note_eq:
  "loop_note m inp s =
     (if - 1 \<noteq> currentNote s \<and> 0 = getVolume inp then
        s\<lparr>currentNote := - 1, out := out s @ [NoteOff 0 (currentNote s) 0]\<rparr>
      else if - 1 = currentNote s \<and> 0 \<noteq> getVolume inp \<and> - 1 \<noteq> getMIDINote m inp s then
        s\<lparr>currentNote := getMIDINote m inp s,
          currentPitchBend :=
            when_set (getPitchBend inp s \<noteq> - 1 \<and>
                      exceeds PB_SEND_THRESHOLD (currentPitchBend s) (getPitchBend inp s))
              (getPitchBend inp s) (currentPitchBend s),
          currentVolume :=
            when_set (exceeds VOLUME_SEND_THRESHOLD (currentVolume s) (getVolume inp))
              (getVolume inp) (currentVolume s),
          currentXValue :=
            when_set (exceeds VOLUME_SEND_THRESHOLD (currentXValue s) (mapped (getXValue inp)))
              (mapped (getXValue inp)) (currentXValue s),
          currentYValue :=
            when_set (exceeds VOLUME_SEND_THRESHOLD (currentYValue s) (mapped (getYValue inp)))
              (mapped (getYValue inp)) (currentYValue s),
          out := out s @
            when_sent (exceeds VOLUME_SEND_THRESHOLD (currentVolume s) (getVolume inp))
              (CC 0 MIDI_BREATH_CC (getVolume inp)) @
            when_sent (getPitchBend inp s \<noteq> - 1 \<and>
                       exceeds PB_SEND_THRESHOLD (currentPitchBend s) (getPitchBend inp s))
              (PitchBend (getPitchBend inp s)) @
            when_sent (exceeds VOLUME_SEND_THRESHOLD (currentXValue s) (mapped (getXValue inp)))
              (CC 0 X_CC (mapped (getXValue inp))) @
            when_sent (exceeds VOLUME_SEND_THRESHOLD (currentYValue s) (mapped (getYValue inp)))
              (CC 0 Y_CC (mapped (getYValue inp))) @
            [NoteOn 0 (getMIDINote m inp s) 127]\<rparr>
      else if - 1 \<noteq> currentNote s \<and> getMIDINote m inp s \<noteq> currentNote s then
        s\<lparr>currentNote := getMIDINote m inp s,
          currentPitchBend :=
            when_set (getPitchBend inp s \<noteq> - 1 \<and>
                      exceeds PB_SEND_THRESHOLD (currentPitchBend s) (getPitchBend inp s))
              (getPitchBend inp s) (currentPitchBend s),
          currentVolume :=
            when_set (exceeds VOLUME_SEND_THRESHOLD (currentVolume s) (getVolume inp))
              (getVolume inp) (currentVolume s),
          currentXValue :=
            when_set (exceeds VOLUME_SEND_THRESHOLD (currentXValue s) (mapped (getXValue inp)))
              (mapped (getXValue inp)) (currentXValue s),
          currentYValue :=
            when_set (exceeds VOLUME_SEND_THRESHOLD (currentYValue s) (mapped (getYValue inp)))
              (mapped (getYValue inp)) (currentYValue s),
          out := out s @ [NoteOff 0 (currentNote s) 0] @
            when_sent (getPitchBend inp s \<noteq> - 1 \<and>
                       exceeds PB_SEND_THRESHOLD (currentPitchBend s) (getPitchBend inp s))
              (PitchBend (getPitchBend inp s)) @
            when_sent (exceeds VOLUME_SEND_THRESHOLD (currentVolume s) (getVolume inp))
              (CC 0 MIDI_BREATH_CC (getVolume inp)) @
            when_sent (exceeds VOLUME_SEND_THRESHOLD (currentXValue s) (mapped (getXValue inp)))
              (CC 0 X_CC (mapped (getXValue inp))) @
            when_sent (exceeds VOLUME_SEND_THRESHOLD (currentYValue s) (mapped (getYValue inp)))
              (CC 0 Y_CC (mapped (getYValue inp))) @
            [NoteOn 0 (getMIDINote m inp s) 127]\<rparr>
      else if - 1 \<noteq> currentNote s
              \<and> millis_check inp > u32 (wrap32 (ccSendTime s + MIN_CC_INTERVAL)) then
        s\<lparr>ccSendTime := wrap32 (millis_stamp inp),
          currentPitchBend :=
            when_set (getPitchBend inp s \<noteq> - 1 \<and>
                      exceeds PB_SEND_THRESHOLD (currentPitchBend s) (getPitchBend inp s))
              (getPitchBend inp s) (currentPitchBend s),
          currentVolume :=
            when_set (exceeds VOLUME_SEND_THRESHOLD (currentVolume s) (getVolume inp))
              (getVolume inp) (currentVolume s),
          currentXValue :=
            when_set (exceeds VOLUME_SEND_THRESHOLD (currentXValue s) (mapped (getXValue inp)))
              (mapped (getXValue inp)) (currentXValue s),
          currentYValue :=
            when_set (exceeds VOLUME_SEND_THRESHOLD (currentYValue s) (mapped (getYValue inp)))
              (mapped (getYValue inp)) (currentYValue s),
          out := out s @
            when_sent (getPitchBend inp s \<noteq> - 1 \<and>
                       exceeds PB_SEND_THRESHOLD (currentPitchBend s) (getPitchBend inp s))
              (PitchBend (getPitchBend inp s)) @
            when_sent (exceeds VOLUME_SEND_THRESHOLD (currentVolume s) (getVolume inp))
              (CC 0 MIDI_BREATH_CC (getVolume inp)) @
            when_sent (exceeds VOLUME_SEND_THRESHOLD (currentXValue s) (mapped (getXValue inp)))
              (CC 0 X_CC (mapped (getXValue inp))) @
            when_sent (exceeds VOLUME_SEND_THRESHOLD (currentYValue s) (mapped (getYValue inp)))
              (CC 0 Y_CC (mapped (getYValue inp)))\<rparr>
      else s)"
  by (simp add: loop_note_def sendNoteOn_DEBUG sendNoteOff_DEBUG sendPitchBend_DEBUG
      sendBreathController_DEBUG sendXYControllers_DEBUG Let_def)

lemma loop_note_out:
  "loop_note m inp (s\<lparr>out := e\<rparr>) =
     (loop_note m inp s)\<lparr>out := e @ new_events s (loop_note m inp s)\<rparr>"
  by (simp add: loop_note_eq)

lemma loop_note_meta:
  "loop_note m inp (s\<lparr>metaMode := a, metaValue := b\<rparr>) =
     (loop_note m inp s)\<lparr>metaMode := a, metaValue := b\<rparr>"
  by (simp add: loop_note_eq)

lemma loop_note_metaMode:
  "loop_note m inp (s\<lparr>metaMode := a\<rparr>) = (loop_note m inp s)\<lparr>metaMode := a\<rparr>"
  by (simp add: loop_note_eq)

lemma loop_note_frame:
  "loop_note m inp (s\<lparr>metaMode := a, metaValue := b, out := e\<rparr>) =
     (loop_note m inp s)\<lparr>metaMode := a, metaValue := b,
        out := e @ new_events s (loop_note m inp s)\<rparr>"
  "loop_note m inp (s\<lparr>metaMode := a, out := e\<rparr>) =
     (loop_note m inp s)\<lparr>metaMode := a, out := e @ new_events s (loop_note m inp s)\<rparr>"
  by (simp_all add: loop_note_eq)

lemma loop_note_pins [simp]:
  "loop_note m (inp\<lparr>panic_pin := p\<rparr>) s = loop_note m inp s"
  "loop_note m (inp\<lparr>meta_pin := p\<rparr>) s = loop_note m inp s"
  by (simp_all add: loop_note_eq)

lemma loop_note_prefix:
  "out (loop_note m inp s) = out s @ new_events s (loop_note m inp s)"
  by (simp add: loop_note_eq)

lemma loop_note_meta_fields:
  "metaMode (loop_note m inp s) = metaMode s"
  "metaValue (loop_note m inp s) = metaValue s"
  "slide_quant_mode (loop_note m inp s) = slide_quant_mode s"
  by (simp_all add: loop_note_eq)

lemma note_events_no_command:
  "filter is_command (new_events s (loop_note m inp s)) = []"
  by (simp add: loop_note_eq filter_when_sent)

lemma loop_meta_prefix:
  "out (loop_meta inp s) = out s @ new_events s (loop_meta inp s)"
  by (simp add: loop_meta_eq)

lemma loop_meta_out:
  "loop_meta inp (s\<lparr>out := e\<rparr>) = (loop_meta inp s)\<lparr>out := e @ new_events s (loop_meta inp s)\<rparr>"
  by (simp add: loop_meta_eq)

lemma loop_meta_pins [simp]:
  "loop_meta (inp\<lparr>panic_pin := p\<rparr>) s = loop_meta inp s"
  by (simp add: loop_meta_eq)

lemma loop_meta_events:
  "new_events s (loop_meta inp s) =
     (if meta_pin inp \<noteq> LOW \<and> metaMode s then [NoteOn 1 (metaValue s) 127] else [])"
  by (simp add: loop_meta_eq)

lemma loop_meta_currentNote [simp]: "currentNote (loop_meta inp s) = currentNote s"
  by (simp add: loop_meta_eq)

lemma loop_meta_caches [simp]:
  "currentPitchBend (loop_meta inp s) = currentPitchBend s"
  "currentVolume (loop_meta inp s) = currentVolume s"
  "currentXValue (loop_meta inp s) = currentXValue s"
  "currentYValue (loop_meta inp s) = currentYValue s"
  "slide_quant_mode (loop_meta inp s) = slide_quant_mode s"
  "ccSendTime (loop_meta inp s) = ccSendTime s"
  by (simp_all add: loop_meta_eq)

lemma getters_loop_meta [simp]:
  "getPitchBend inp' (loop_meta inp s) = getPitchBend inp' s"
  "getMIDINote m inp' (loop_meta inp s) = getMIDINote m inp' s"
  by (simp_all add: loop_meta_eq)

lemma loop_eq:
  "loop m inp s =
     (loop_note m inp (loop_meta inp s))\<lparr>out :=
        out s @ (if panic_pin inp = LOW then all_note_offs else [])
          @ new_events s (loop_meta inp s)
          @ new_events (loop_meta inp s) (loop_note m inp (loop_meta inp s))\<rparr>"
proof (cases "panic_pin inp = LOW")
  case True
  then have "loop m inp s = loop_note m inp (loop_meta inp (s\<lparr>out := out s @ all_note_offs\<rparr>))"
    by (simp add: loop_def loop_panic_eq)
  then show ?thesis using True
    by (simp add: loop_meta_out loop_note_out)
next
  case False
  then have "loop m inp s = loop_note m inp (loop_meta inp s)"
    by (simp add: loop_def loop_panic_eq)
  moreover have "out (loop_note m inp (loop_meta inp s)) =
      out s @ new_events s (loop_meta inp s)
        @ new_events (loop_meta inp s) (loop_note m inp (loop_meta inp s))"
    using loop_note_prefix [of m inp "loop_meta inp s"] loop_meta_prefix [of inp s] by simp
  ultimately show ?thesis using False by simp
qed

lemma emitted_eq:
  "emitted m inp s =
     (if panic_pin inp = LOW then all_note_offs else [])
       @ new_events s (loop_meta inp s)
       @ new_events (loop_meta inp s) (loop_note m inp (loop_meta inp s))"
  by (subst emitted_def, subst loop_eq) simp

lemma loop_fields:
  "currentNote (loop m inp s) = currentNote (loop_note m inp (loop_meta inp s))"
  "currentPitchBend (loop m inp s) = currentPitchBend (loop_note m inp (loop_meta inp s))"
  "currentVolume (loop m inp s) = currentVolume (loop_note m inp (loop_meta inp s))"
  "currentXValue (loop m inp s) = currentXValue (loop_note m inp (loop_meta inp s))"
  "currentYValue (loop m inp s) = currentYValue (loop_note m inp (loop_meta inp s))"
  "ccSendTime (loop m inp s) = ccSendTime (loop_note m inp (loop_meta inp s))"
  "slide_quant_mode (loop m inp s) = slide_quant_mode (loop_note m inp (loop_meta inp s))"
  "metaMode (loop m inp s) = metaMode (loop_note m inp (loop_meta inp s))"
  "metaValue (loop m inp s) = metaValue (loop_note m inp (loop_meta inp s))"
  by (subst loop_eq, simp)+

lemma loop_prefix: "out (loop m inp s) = out s @ emitted m inp s"
  by (subst loop_eq) (simp add: emitted_eq)

lemma loop_quant: "slide_quant_mode (loop m inp s) = slide_quant_mode s"
  by (simp add: loop_fields loop_note_meta_fields)

lemma run_prefix: "out (run m inps s) = out s @ new_events s (run m inps s)"
proof (induction inps arbitrary: s)
  case Nil
  show ?case by simp
next
  case (Cons inp inps)
  have "out (run m inps (loop m inp s))
        = out (loop m inp s) @ new_events (loop m inp s) (run m inps (loop m inp s))"
    by (rule Cons.IH)
  then have e: "out (run m inps (loop m inp s))
        = out s @ emitted m inp s @ new_events (loop m inp s) (run m inps (loop m inp s))"
    by (simp only: loop_prefix append_assoc)
  have "out (run m inps (loop m inp s)) = out s @ new_events s (run m inps (loop m inp s))"
    by (subst new_events_eqI [OF e]) (rule e)
  then show ?case by simp
qed

lemma run_events_Cons:
  "new_events s (run m inps (loop m inp s))
     = emitted m inp s @ new_events (loop m inp s) (run m inps (loop m inp s))"
proof (rule new_events_eqI)
  have "out (run m inps (loop m inp s))
        = out (loop m inp s) @ new_events (loop m inp s) (run m inps (loop m inp s))"
    by (rule run_prefix)
  then show "out (run m inps (loop m inp s))
        = out s @ emitted m inp s @ new_events (loop m inp s) (run m inps (loop m inp s))"
    by (simp only: loop_prefix append_assoc)
qed

section \<open>Slide quantization\<close>

text \<open>
  C7. \<open>quantizeSlide\<close> is idempotent; an input in [0, 8192] goes to the output of the
  one band that holds it, which is one of 0, 1365, 2731, 4096, 5461, 6827 and 8191; an
  input outside [0, 8192] goes to 0.
\<close>

theorem quantizeSlide_idempotent_bands:
  "quantizeSlide (quantizeSlide x) = quantizeSlide x
   \<and> (0 \<le> x \<and> x \<le> 8192 \<longrightarrow>
        quantizeSlide x \<in> {0, 1365, 2731, 4096, 5461, 6827, 8191}
        \<and> quantizeSlide x =
            (if x \<le> 683 then 0 else if x \<le> 2048 then 1365 else if x \<le> 3413 then 2731
             else if x \<le> 4779 then 4096 else if x \<le> 6144 then 5461
             else if x \<le> 7509 then 6827 else 8191))
   \<and> (x < 0 \<or> x > 8192 \<longrightarrow> quantizeSlide x = 0)"
  by (simp add: quantizeSlide_def)

theorem quantizeSlide_idempotent_bands_witness:
  "((0::int) \<le> 3000 \<and> (3000::int) \<le> 8192)
   \<and> quantizeSlide (quantizeSlide 3000) = quantizeSlide 3000
   \<and> quantizeSlide 3000 \<in> {0, 1365, 2731, 4096, 5461, 6827, 8191}
   \<and> ((9000::int) < 0 \<or> (9000::int) > 8192)
   \<and> quantizeSlide 9000 = 0"
proof -
  have inside: "(0::int) \<le> 3000 \<and> (3000::int) \<le> 8192" by simp
  have outside: "(9000::int) < 0 \<or> (9000::int) > 8192" by simp
  from quantizeSlide_idempotent_bands [of 3000] inside
  have "quantizeSlide (quantizeSlide 3000) = quantizeSlide 3000
        \<and> quantizeSlide 3000 \<in> {0, 1365, 2731, 4096, 5461, 6827, 8191}"
    by blast
  moreover from quantizeSlide_idempotent_bands [of 9000] outside
  have "quantizeSlide 9000 = 0" by blast
  ultimately show ?thesis using inside outside by blast
qed

section \<open>The slide\<close>

lemma slide_map_value:
  assumes "144 \<le> c" "c \<le> 350"
  shows "map_long c 144 350 8191 0 = 8191 - ((c - 144) * 8191) div 206"
proof -
  have p: "(c - 144) * 8191 \<le> 206 * 8191" using assms by simp
  have q: "0 \<le> (c - 144) * 8191" using assms by simp
  have d: "((c - 144) * 8191) div 206 \<le> 8191" using p by simp
  have d0: "0 \<le> ((c - 144) * 8191) div 206" using q by simp
  have w1: "wrap32 (c - 144) = c - 144" using assms by (simp add: wrap32_id)
  have w2: "wrap32 (0 - 8191) = - 8191" by (simp add: wrap32_def)
  have w3: "wrap32 ((c - 144) * - 8191) = (c - 144) * - 8191" using p q by (simp add: wrap32_id)
  have w4: "wrap32 (350 - 144) = 206" by (simp add: wrap32_def)
  have cd: "c_div ((c - 144) * - 8191) 206 = - (((c - 144) * 8191) div 206)"
    using q by (simp add: c_div_nonpos_pos)
  have w5: "wrap32 (- (((c - 144) * 8191) div 206)) = - (((c - 144) * 8191) div 206)"
    using d d0 by (simp add: wrap32_id)
  have "map_long c 144 350 8191 0 =
          wrap32 (wrap32 (c_div (wrap32 (wrap32 (c - 144) * wrap32 (0 - 8191)))
                                (wrap32 (350 - 144))) + 8191)"
    by (simp only: map_long_def)
  also have "\<dots> = wrap32 (- (((c - 144) * 8191) div 206) + 8191)"
    by (simp only: w1 w2 w3 w4 cd w5)
  also have "\<dots> = 8191 - ((c - 144) * 8191) div 206"
    using d d0 by (simp add: wrap32_id)
  finally show ?thesis .
qed

lemma getPitchBendFromLinearPot_touching:
  assumes "slide_raw inp \<le> LPOT_NO_TOUCH_VALUE" "slide_quant_mode s = 0"
  shows "getPitchBendFromLinearPot inp s
         = 8191 - ((max 144 (min 350 (slide_raw inp)) - 144) * 8191) div 206"
proof -
  define c where "c = max 144 (min 350 (slide_raw inp))"
  have c: "144 \<le> c" "c \<le> 350" by (simp_all add: c_def)
  have v: "0 \<le> 8191 - ((c - 144) * 8191) div 206" "8191 - ((c - 144) * 8191) div 206 \<le> 8191"
    using c by simp_all
  have cc: "(if (if slide_raw inp > 350 then 350 else slide_raw inp) < 144 then 144
             else (if slide_raw inp > 350 then 350 else slide_raw inp)) = c"
    by (simp add: c_def max_def min_def)
  have w: "wrap16 (map_long c 144 350 8191 0) = 8191 - ((c - 144) * 8191) div 206"
    using v by (simp add: wrap16_id slide_map_value [OF c])
  have "getPitchBendFromLinearPot inp s =
          (let pbVal = wrap16 (map_long c 144 350 8191 0) in if pbVal < 0 then 0 else pbVal)"
    using assms
    by (simp only: getPitchBendFromLinearPot_def Let_def LPOT_NO_TOUCH_VALUE_def
        LPOT_SLIDE_POS_1_def LPOT_SLIDE_POS_7_def PITCH_BEND_NEUTRAL_value
        MAX_PITCH_BEND_DOWN_def cc) simp
  also have "\<dots> = 8191 - ((c - 144) * 8191) div 206"
    using v by (simp only: w Let_def) simp
  finally show ?thesis by (simp only: c_def)
qed

text \<open>
  C8. With quantization disabled and the slide touched (a raw reading of at most 1010),
  the pitch bend does not increase when the raw reading increases, and it lies between 0
  and the neutral value; the raw reading 144 of the first position gives the neutral
  value and the raw reading 350 of the seventh position gives 0.
\<close>

theorem slide_mapping_monotone:
  assumes "slide_quant_mode s = 0"
  shows "(slide_raw a \<le> slide_raw b \<and> slide_raw b \<le> LPOT_NO_TOUCH_VALUE \<longrightarrow>
            getPitchBend b s \<le> getPitchBend a s)
         \<and> (slide_raw a \<le> LPOT_NO_TOUCH_VALUE \<longrightarrow>
              MAX_PITCH_BEND_DOWN \<le> getPitchBend a s \<and> getPitchBend a s \<le> PITCH_BEND_NEUTRAL)
         \<and> (slide_raw a = LPOT_SLIDE_POS_1 \<longrightarrow> getPitchBend a s = PITCH_BEND_NEUTRAL)
         \<and> (slide_raw a = LPOT_SLIDE_POS_7 \<longrightarrow> getPitchBend a s = MAX_PITCH_BEND_DOWN)"
proof -
  have mono: "getPitchBend b s \<le> getPitchBend a s"
    if "slide_raw a \<le> slide_raw b" "slide_raw b \<le> LPOT_NO_TOUCH_VALUE"
  proof -
    have ta: "slide_raw a \<le> LPOT_NO_TOUCH_VALUE" using that by simp
    have "(max 144 (min 350 (slide_raw a)) - 144) * 8191
          \<le> (max 144 (min 350 (slide_raw b)) - 144) * 8191"
      using that(1) by simp
    then have "((max 144 (min 350 (slide_raw a)) - 144) * 8191) div 206
               \<le> ((max 144 (min 350 (slide_raw b)) - 144) * 8191) div 206"
      by (rule zdiv_mono1) simp
    then show ?thesis
      by (simp only: getPitchBend_def getPitchBendFromLinearPot_touching [OF ta assms]
          getPitchBendFromLinearPot_touching [OF that(2) assms])
  qed
  have range: "MAX_PITCH_BEND_DOWN \<le> getPitchBend a s \<and> getPitchBend a s \<le> PITCH_BEND_NEUTRAL"
    if "slide_raw a \<le> LPOT_NO_TOUCH_VALUE"
  proof -
    define c where "c = max 144 (min 350 (slide_raw a))"
    have c: "144 \<le> c" "c \<le> 350" by (simp_all add: c_def)
    have "0 \<le> 8191 - ((c - 144) * 8191) div 206" "8191 - ((c - 144) * 8191) div 206 \<le> 8191"
      using c by simp_all
    then show ?thesis
      by (simp add: getPitchBend_def getPitchBendFromLinearPot_touching [OF that assms]
          c_def MAX_PITCH_BEND_DOWN_def PITCH_BEND_NEUTRAL_value)
  qed
  have first: "getPitchBend a s = PITCH_BEND_NEUTRAL" if "slide_raw a = LPOT_SLIDE_POS_1"
  proof -
    have "slide_raw a \<le> LPOT_NO_TOUCH_VALUE"
      using that by (simp add: LPOT_SLIDE_POS_1_def LPOT_NO_TOUCH_VALUE_def)
    from getPitchBendFromLinearPot_touching [OF this assms] that show ?thesis
      by (simp add: getPitchBend_def LPOT_SLIDE_POS_1_def PITCH_BEND_NEUTRAL_value)
  qed
  have seventh: "getPitchBend a s = MAX_PITCH_BEND_DOWN" if "slide_raw a = LPOT_SLIDE_POS_7"
  proof -
    have "slide_raw a \<le> LPOT_NO_TOUCH_VALUE"
      using that by (simp add: LPOT_SLIDE_POS_7_def LPOT_NO_TOUCH_VALUE_def)
    from getPitchBendFromLinearPot_touching [OF this assms] that show ?thesis
      by (simp add: getPitchBend_def LPOT_SLIDE_POS_7_def MAX_PITCH_BEND_DOWN_def)
  qed
  show ?thesis using mono range first seventh by blast
qed

text \<open>
  The two ends of the slide, an instance of the theorem for C8.
\<close>

theorem slide_mapping_monotone_witness:
  "slide_quant_mode initial_state = 0
   \<and> slide_raw (idle_inputs\<lparr>slide_raw := 144\<rparr>) \<le> slide_raw (idle_inputs\<lparr>slide_raw := 350\<rparr>)
   \<and> slide_raw (idle_inputs\<lparr>slide_raw := 350\<rparr>) \<le> LPOT_NO_TOUCH_VALUE
   \<and> getPitchBend (idle_inputs\<lparr>slide_raw := 350\<rparr>) initial_state
       \<le> getPitchBend (idle_inputs\<lparr>slide_raw := 144\<rparr>) initial_state
   \<and> slide_raw (idle_inputs\<lparr>slide_raw := 144\<rparr>) = LPOT_SLIDE_POS_1
   \<and> getPitchBend (idle_inputs\<lparr>slide_raw := 144\<rparr>) initial_state = PITCH_BEND_NEUTRAL
   \<and> slide_raw (idle_inputs\<lparr>slide_raw := 350\<rparr>) = LPOT_SLIDE_POS_7
   \<and> getPitchBend (idle_inputs\<lparr>slide_raw := 350\<rparr>) initial_state = MAX_PITCH_BEND_DOWN"
proof -
  have q: "slide_quant_mode initial_state = 0" by (simp add: initial_state_def)
  have h: "slide_raw (idle_inputs\<lparr>slide_raw := 144\<rparr>) \<le> slide_raw (idle_inputs\<lparr>slide_raw := 350\<rparr>)"
    "slide_raw (idle_inputs\<lparr>slide_raw := 350\<rparr>) \<le> LPOT_NO_TOUCH_VALUE"
    "slide_raw (idle_inputs\<lparr>slide_raw := 144\<rparr>) = LPOT_SLIDE_POS_1"
    "slide_raw (idle_inputs\<lparr>slide_raw := 350\<rparr>) = LPOT_SLIDE_POS_7"
    by (simp_all add: LPOT_NO_TOUCH_VALUE_def LPOT_SLIDE_POS_1_def LPOT_SLIDE_POS_7_def)
  show ?thesis
    using q h
      slide_mapping_monotone [OF q, of "idle_inputs\<lparr>slide_raw := 144\<rparr>" "idle_inputs\<lparr>slide_raw := 350\<rparr>"]
      slide_mapping_monotone [OF q, of "idle_inputs\<lparr>slide_raw := 350\<rparr>" "idle_inputs\<lparr>slide_raw := 350\<rparr>"]
    by blast
qed

section \<open>The chord decoder\<close>

lemma overtone_search_none:
  "(\<And>j. i \<le> j \<Longrightarrow> j < sizeof_overtone_sw_values \<Longrightarrow> read_overtone_sw_values m j \<noteq> v)
   \<Longrightarrow> overtone_search m v i = - 1"
proof (induction m v i rule: overtone_search.induct)
  case (1 m val i)
  show ?case
  proof (cases "i < sizeof_overtone_sw_values")
    case True
    then have ne: "val \<noteq> read_overtone_sw_values m i" using "1.prems" [of i] by auto
    have "overtone_search m val (Suc i) = - 1"
      using True ne "1.prems" by (intro "1.IH") auto
    then show ?thesis using True ne by (subst overtone_search.simps) simp
  next
    case False
    then show ?thesis by (subst overtone_search.simps) simp
  qed
qed

lemma overtone_search_found:
  "i \<le> k \<Longrightarrow> k < sizeof_overtone_sw_values \<Longrightarrow> read_overtone_sw_values m k = v
   \<Longrightarrow> (\<And>j. i \<le> j \<Longrightarrow> j < k \<Longrightarrow> read_overtone_sw_values m j \<noteq> v)
   \<Longrightarrow> overtone_search m v i = int k"
proof (induction m v i rule: overtone_search.induct)
  case (1 m val i)
  have lt: "i < sizeof_overtone_sw_values" using "1.prems" by simp
  show ?case
  proof (cases "i = k")
    case True
    then show ?thesis using lt "1.prems" by (subst overtone_search.simps) simp
  next
    case False
    then have ne: "val \<noteq> read_overtone_sw_values m i" using "1.prems"(1) "1.prems"(4) [of i] by auto
    have "overtone_search m val (Suc i) = int k"
      using lt ne False "1.prems" by (intro "1.IH") auto
    then show ?thesis using lt ne by (subst overtone_search.simps) simp
  qed
qed

lemma sizeof_overtone_sw_values_value: "sizeof_overtone_sw_values = 16"
  by (simp add: sizeof_overtone_sw_values_def sizeof_int_def overtone_sw_values_def)

lemma table_length: "length overtone_sw_values = 8"
  by (simp add: overtone_sw_values_def)

lemma read_in_table:
  "k < 8 \<Longrightarrow> read_overtone_sw_values m k = overtone_sw_values ! k"
  by (simp add: read_overtone_sw_values_def table_length)

lemma read_past_table:
  "8 \<le> j \<Longrightarrow> read_overtone_sw_values m j = past_sw_values m (j - 8)"
  by (simp add: read_overtone_sw_values_def table_length)

lemma table_distinct: "distinct overtone_sw_values"
  by (simp add: overtone_sw_values_def)

lemma overtone_search_table:
  assumes "k < 8"
  shows "overtone_search m (overtone_sw_values ! k) 0 = int k"
proof (rule overtone_search_found)
  show "0 \<le> k" by simp
  show "k < sizeof_overtone_sw_values" using assms by (simp add: sizeof_overtone_sw_values_value)
  show "read_overtone_sw_values m k = overtone_sw_values ! k" using assms by (rule read_in_table)
  fix j assume "0 \<le> j" "j < k"
  then have "overtone_sw_values ! j \<noteq> overtone_sw_values ! k"
    using assms by (simp add: nth_eq_iff_index_eq [OF table_distinct] table_length)
  then show "read_overtone_sw_values m j \<noteq> overtone_sw_values ! k"
    using \<open>j < k\<close> assms by (simp add: read_in_table)
qed

lemma overtone_search_absent:
  assumes "v \<notin> set overtone_sw_values" "\<forall>k<8. past_sw_values m k \<noteq> v"
  shows "overtone_search m v 0 = - 1"
proof (rule overtone_search_none)
  fix j assume j: "0 \<le> j" "j < sizeof_overtone_sw_values"
  show "read_overtone_sw_values m j \<noteq> v"
  proof (cases "j < 8")
    case True
    then have "overtone_sw_values ! j \<in> set overtone_sw_values"
      by (intro nth_mem) (simp add: table_length)
    then show ?thesis using assms(1) True by (auto simp: read_in_table)
  next
    case False
    then have "j - 8 < 8" using j by (simp add: sizeof_overtone_sw_values_value)
    then show ?thesis using assms(2) False by (simp add: read_past_table)
  qed
qed

text \<open>
  C4, as the code has it. The decoder returns index 0 for the pattern 0000, index 1 for
  0001 and index 4 for 1111, which selects \<open>OT_4\<close>; in general the index of the
  pattern in the table. For a pattern that is not in the table it returns -1, and the
  note stays the current one, when none of the eight words that the search reads behind
  the table equals the pattern.
\<close>

theorem chord_decoder_table:
  "(getRawOvertoneSwitchValue inp = 0 \<longrightarrow> getOvertoneFromOvertoneSwitches m inp = 0)
   \<and> (getRawOvertoneSwitchValue inp = 1 \<longrightarrow> getOvertoneFromOvertoneSwitches m inp = 1)
   \<and> (getRawOvertoneSwitchValue inp = 15 \<longrightarrow>
        getOvertoneFromOvertoneSwitches m inp = 4 \<and> getMIDINote m inp s = OT_4)
   \<and> (k < 8 \<and> getRawOvertoneSwitchValue inp = overtone_sw_values ! k \<longrightarrow>
        getOvertoneFromOvertoneSwitches m inp = int k \<and> getMIDINote m inp s = overtones ! k)
   \<and> (getRawOvertoneSwitchValue inp \<notin> set overtone_sw_values
        \<and> (\<forall>j<8. past_sw_values m j \<noteq> getRawOvertoneSwitchValue inp) \<longrightarrow>
        getOvertoneFromOvertoneSwitches m inp = - 1 \<and> getMIDINote m inp s = currentNote s)"
proof -
  have tab: "getOvertoneFromOvertoneSwitches m inp = int j \<and> getMIDINote m inp s = overtones ! j"
    if "j < 8" "getRawOvertoneSwitchValue inp = overtone_sw_values ! j" for j
    using that overtone_search_table [of j m]
    by (simp add: getOvertoneFromOvertoneSwitches_def getMIDINote_def Let_def
        read_overtones_def overtones_def)
  have c0: "getOvertoneFromOvertoneSwitches m inp = 0" if "getRawOvertoneSwitchValue inp = 0"
    using tab [of 0] that by (simp add: overtone_sw_values_def)
  have c1: "getOvertoneFromOvertoneSwitches m inp = 1" if "getRawOvertoneSwitchValue inp = 1"
    using tab [of 1] that by (simp add: overtone_sw_values_def)
  have c4: "getOvertoneFromOvertoneSwitches m inp = 4 \<and> getMIDINote m inp s = OT_4"
    if "getRawOvertoneSwitchValue inp = 15"
    using tab [of 4] that by (simp add: overtone_sw_values_def overtones_def)
  have none: "getOvertoneFromOvertoneSwitches m inp = - 1 \<and> getMIDINote m inp s = currentNote s"
    if "getRawOvertoneSwitchValue inp \<notin> set overtone_sw_values"
       "\<forall>j<8. past_sw_values m j \<noteq> getRawOvertoneSwitchValue inp"
    using overtone_search_absent [OF that]
    by (simp add: getOvertoneFromOvertoneSwitches_def getMIDINote_def Let_def)
  show ?thesis
    using c0 c1 c4 tab [of k] none by blast
qed

lemma raw_all_pressed:
  "getRawOvertoneSwitchValue
     (idle_inputs\<lparr>ot_sw_0 := LOW, ot_sw_1 := LOW, ot_sw_2 := LOW, ot_sw_3 := LOW\<rparr>) = 15"
  by (simp add: getRawOvertoneSwitchValue_def idle_inputs_def c_not_def u8_def Let_def)

lemma raw_0101:
  "getRawOvertoneSwitchValue (idle_inputs\<lparr>ot_sw_1 := LOW, ot_sw_3 := LOW\<rparr>) = 5"
  by (simp add: getRawOvertoneSwitchValue_def idle_inputs_def c_not_def u8_def Let_def)

text \<open>
  C4 as stated fails: with all four switches pressed the pattern is 1111 and the
  decoder returns 4, the index of \<open>OT_4\<close> (note 67), not 5, the index of \<open>OT_5\<close>.
\<close>

theorem chord_decoder_counterexample:
  "getRawOvertoneSwitchValue
     (idle_inputs\<lparr>ot_sw_0 := LOW, ot_sw_1 := LOW, ot_sw_2 := LOW, ot_sw_3 := LOW\<rparr>) = 15
   \<and> getOvertoneFromOvertoneSwitches erased_memory
       (idle_inputs\<lparr>ot_sw_0 := LOW, ot_sw_1 := LOW, ot_sw_2 := LOW, ot_sw_3 := LOW\<rparr>) = 4
   \<and> overtones ! 4 = OT_4 \<and> overtones ! 5 = OT_5 \<and> OT_4 \<noteq> OT_5
   \<and> getMIDINote erased_memory
       (idle_inputs\<lparr>ot_sw_0 := LOW, ot_sw_1 := LOW, ot_sw_2 := LOW, ot_sw_3 := LOW\<rparr>)
       initial_state = 67"
  by code_simp

text \<open>
  The decoder on the patterns 1111 and 0101, an instance of the theorem for C4.
\<close>

theorem chord_decoder_table_witness:
  "getRawOvertoneSwitchValue
     (idle_inputs\<lparr>ot_sw_0 := LOW, ot_sw_1 := LOW, ot_sw_2 := LOW, ot_sw_3 := LOW\<rparr>) = 15
   \<and> getOvertoneFromOvertoneSwitches erased_memory
       (idle_inputs\<lparr>ot_sw_0 := LOW, ot_sw_1 := LOW, ot_sw_2 := LOW, ot_sw_3 := LOW\<rparr>) = 4
   \<and> getRawOvertoneSwitchValue (idle_inputs\<lparr>ot_sw_1 := LOW, ot_sw_3 := LOW\<rparr>) = 5
   \<and> 5 \<notin> set overtone_sw_values
   \<and> getOvertoneFromOvertoneSwitches erased_memory
       (idle_inputs\<lparr>ot_sw_1 := LOW, ot_sw_3 := LOW\<rparr>) = - 1"
proof -
  have a: "5 \<notin> set overtone_sw_values" by (simp add: overtone_sw_values_def)
  have b: "\<forall>j<8. past_sw_values erased_memory j \<noteq> 5" by (simp add: erased_memory_def)
  from chord_decoder_table
    [of "idle_inputs\<lparr>ot_sw_0 := LOW, ot_sw_1 := LOW, ot_sw_2 := LOW, ot_sw_3 := LOW\<rparr>"
      erased_memory initial_state 0]
    raw_all_pressed
  have c: "getOvertoneFromOvertoneSwitches erased_memory
       (idle_inputs\<lparr>ot_sw_0 := LOW, ot_sw_1 := LOW, ot_sw_2 := LOW, ot_sw_3 := LOW\<rparr>) = 4"
    by blast
  from chord_decoder_table
    [of "idle_inputs\<lparr>ot_sw_1 := LOW, ot_sw_3 := LOW\<rparr>" erased_memory initial_state 0]
    raw_0101 a b
  have d: "getOvertoneFromOvertoneSwitches erased_memory
       (idle_inputs\<lparr>ot_sw_1 := LOW, ot_sw_3 := LOW\<rparr>) = - 1"
    by simp
  show ?thesis using a c d raw_all_pressed raw_0101 by simp
qed

text \<open>
  When a word behind the table equals the pattern, the search does not return -1 but the
  index of that word, past the end of the table.
\<close>

lemma overtone_search_reads_past_table:
  "getOvertoneFromOvertoneSwitches (erased_memory\<lparr>past_sw_values := (\<lambda>k. 5)\<rparr>)
     (idle_inputs\<lparr>ot_sw_1 := LOW, ot_sw_3 := LOW\<rparr>) = 8"
  by code_simp

section \<open>The panic switch\<close>

text \<open>
  C1, as the code has it. A pass that finds the panic switch active first sends the 128
  note-offs of \<open>allNotesOff\<close> (notes 0 to 127 in order, one each, channel 1, velocity
  0) and then goes on exactly as the same pass with the panic switch inactive: the
  messages of that pass follow the note-offs, and the variables end up the same.
\<close>

theorem panic_tick_prepends_all_note_offs:
  assumes "panic_pin inp = LOW"
  shows "emitted m inp s = all_note_offs @ emitted m (inp\<lparr>panic_pin := HIGH\<rparr>) s
         \<and> (loop m inp s)\<lparr>out := []\<rparr> = (loop m (inp\<lparr>panic_pin := HIGH\<rparr>) s)\<lparr>out := []\<rparr>
         \<and> length all_note_offs = 128
         \<and> (\<forall>k<128. all_note_offs ! k = NoteOff 1 (int k) 0)"
proof -
  have "emitted m inp s = all_note_offs @ emitted m (inp\<lparr>panic_pin := HIGH\<rparr>) s"
    using assms by (simp add: emitted_eq)
  moreover have "(loop m inp s)\<lparr>out := []\<rparr> = (loop m (inp\<lparr>panic_pin := HIGH\<rparr>) s)\<lparr>out := []\<rparr>"
    by (simp add: loop_eq)
  ultimately show ?thesis
    by (simp add: all_note_offs_nth all_note_offs_length)
qed

text \<open>
  C1 as stated fails: with the panic switch active, no note sounding, the fundamental
  fingered and breath at 80, the pass sends the 128 note-offs and then a breath
  controller message and a note-on, and the note 48 sounds afterwards.
\<close>

theorem panic_tick_counterexample:
  "panic_pin (idle_inputs\<lparr>panic_pin := LOW, breath_raw := 80\<rparr>) = LOW
   \<and> emitted erased_memory (idle_inputs\<lparr>panic_pin := LOW, breath_raw := 80\<rparr>) initial_state
       = all_note_offs @ [CC 0 2 5, NoteOn 0 48 127]
   \<and> currentNote initial_state = - 1
   \<and> currentNote (loop erased_memory (idle_inputs\<lparr>panic_pin := LOW, breath_raw := 80\<rparr>)
        initial_state) = 48"
  by code_simp

text \<open>
  The panic pass of the example, an instance of the theorem for C1.
\<close>

theorem panic_tick_prepends_all_note_offs_witness:
  "panic_pin (idle_inputs\<lparr>panic_pin := LOW, breath_raw := 80\<rparr>) = LOW
   \<and> emitted erased_memory (idle_inputs\<lparr>panic_pin := LOW, breath_raw := 80\<rparr>) initial_state
       = all_note_offs
         @ emitted erased_memory (idle_inputs\<lparr>panic_pin := LOW, breath_raw := 80, panic_pin := HIGH\<rparr>)
             initial_state"
proof -
  have h: "panic_pin (idle_inputs\<lparr>panic_pin := LOW, breath_raw := 80\<rparr>) = LOW" by simp
  from panic_tick_prepends_all_note_offs [OF h, of erased_memory initial_state] h
  show ?thesis by blast
qed

section \<open>The meta switch\<close>

text \<open>
  C2, as the code has it. While the meta switch is held, the pass records the raw chord
  pattern in \<open>metaValue\<close> and sets \<open>metaMode\<close>, sends no meta command, and otherwise
  does exactly what the pass does with the meta switch released and no meta key press
  pending: the same messages, the same note and caches. The note is selected from the
  chord switches as in any other pass.
\<close>

theorem meta_held_tick:
  assumes "meta_pin inp = LOW"
  shows "loop m inp s =
           (loop m (inp\<lparr>meta_pin := HIGH\<rparr>) (s\<lparr>metaMode := False\<rparr>))
             \<lparr>metaMode := True, metaValue := getRawOvertoneSwitchValue inp\<rparr>
         \<and> emitted m inp s = emitted m (inp\<lparr>meta_pin := HIGH\<rparr>) (s\<lparr>metaMode := False\<rparr>)"
proof -
  have a: "loop m inp s =
           (loop m (inp\<lparr>meta_pin := HIGH\<rparr>) (s\<lparr>metaMode := False\<rparr>))
             \<lparr>metaMode := True, metaValue := getRawOvertoneSwitchValue inp\<rparr>"
    using assms
    by (simp add: loop_def loop_panic_eq loop_meta_eq loop_note_meta loop_note_metaMode
        loop_note_frame loop_note_out)
  have "out (loop m inp s) = out (loop m (inp\<lparr>meta_pin := HIGH\<rparr>) (s\<lparr>metaMode := False\<rparr>))"
    by (subst a) simp
  then have "emitted m inp s = emitted m (inp\<lparr>meta_pin := HIGH\<rparr>) (s\<lparr>metaMode := False\<rparr>)"
    by (simp add: emitted_def new_events_def)
  with a show ?thesis by simp
qed

text \<open>
  C2 as stated fails: with the meta switch held and the note 48 sounding, the pass with
  the fundamental fingered keeps 48, the pass with the chord 0001 changes to note 55.
\<close>

theorem meta_held_tick_counterexample:
  "meta_pin (idle_inputs\<lparr>meta_pin := LOW, breath_raw := 80\<rparr>) = LOW
   \<and> meta_pin (idle_inputs\<lparr>meta_pin := LOW, ot_sw_3 := LOW, breath_raw := 80\<rparr>) = LOW
   \<and> currentNote (loop erased_memory (idle_inputs\<lparr>meta_pin := LOW, breath_raw := 80\<rparr>)
        (initial_state\<lparr>currentNote := 48\<rparr>)) = 48
   \<and> currentNote (loop erased_memory
        (idle_inputs\<lparr>meta_pin := LOW, ot_sw_3 := LOW, breath_raw := 80\<rparr>)
        (initial_state\<lparr>currentNote := 48\<rparr>)) = 55
   \<and> emitted erased_memory (idle_inputs\<lparr>meta_pin := LOW, ot_sw_3 := LOW, breath_raw := 80\<rparr>)
        (initial_state\<lparr>currentNote := 48\<rparr>) = [NoteOff 0 48 0, CC 0 2 5, NoteOn 0 55 127]"
  by code_simp

text \<open>
  A pass with the meta switch held, an instance of the theorem for C2.
\<close>

theorem meta_held_tick_witness:
  "meta_pin (idle_inputs\<lparr>meta_pin := LOW, ot_sw_3 := LOW, breath_raw := 80\<rparr>) = LOW
   \<and> emitted erased_memory (idle_inputs\<lparr>meta_pin := LOW, ot_sw_3 := LOW, breath_raw := 80\<rparr>)
        (initial_state\<lparr>currentNote := 48\<rparr>)
      = emitted erased_memory
          (idle_inputs\<lparr>meta_pin := LOW, ot_sw_3 := LOW, breath_raw := 80, meta_pin := HIGH\<rparr>)
          (initial_state\<lparr>currentNote := 48, metaMode := False\<rparr>)"
proof -
  have h: "meta_pin (idle_inputs\<lparr>meta_pin := LOW, ot_sw_3 := LOW, breath_raw := 80\<rparr>) = LOW"
    by simp
  from meta_held_tick [OF h, of erased_memory "initial_state\<lparr>currentNote := 48\<rparr>"] h
  show ?thesis by blast
qed

text \<open>
  C3, as the code has it. On the pass where the meta switch is found released after a
  pass that found it held, exactly one command is sent, the note-on on channel 1 whose
  note number is the recorded chord pattern, with velocity 127; \<open>metaMode\<close> is false
  afterwards, and \<open>metaValue\<close> keeps the recorded pattern.
\<close>

theorem meta_release_tick:
  assumes "meta_pin inp = HIGH" "metaMode s"
  shows "filter is_command (emitted m inp s) = [NoteOn 1 (metaValue s) 127]
         \<and> \<not> metaMode (loop m inp s)
         \<and> metaValue (loop m inp s) = metaValue s"
  using assms
  by (simp add: emitted_eq loop_fields loop_note_meta_fields note_events_no_command
      all_note_offs_no_command loop_meta_events)
    (simp add: loop_meta_eq)

text \<open>
  C3 as stated fails: after the release pass the recorded pattern 3 is still in
  \<open>metaValue\<close>.
\<close>

theorem meta_release_tick_counterexample:
  "meta_pin idle_inputs = HIGH
   \<and> metaMode (initial_state\<lparr>metaMode := True, metaValue := 3\<rparr>)
   \<and> emitted erased_memory idle_inputs (initial_state\<lparr>metaMode := True, metaValue := 3\<rparr>)
       = [NoteOn 1 3 127]
   \<and> metaValue (loop erased_memory idle_inputs (initial_state\<lparr>metaMode := True, metaValue := 3\<rparr>))
       = 3"
  by code_simp

text \<open>
  A release pass, an instance of the theorem for C3.
\<close>

theorem meta_release_tick_witness:
  "meta_pin idle_inputs = HIGH
   \<and> metaMode (initial_state\<lparr>metaMode := True, metaValue := 3\<rparr>)
   \<and> filter is_command
        (emitted erased_memory idle_inputs (initial_state\<lparr>metaMode := True, metaValue := 3\<rparr>))
       = [NoteOn 1 3 127]
   \<and> \<not> metaMode (loop erased_memory idle_inputs (initial_state\<lparr>metaMode := True, metaValue := 3\<rparr>))"
proof -
  have h: "meta_pin idle_inputs = HIGH" "metaMode (initial_state\<lparr>metaMode := True, metaValue := 3\<rparr>)"
    by (simp_all add: idle_inputs_def)
  from meta_release_tick [OF h, of erased_memory] h
  show ?thesis by simp
qed

section \<open>The end of a note\<close>

text \<open>
  C10. In a pass with the panic switch inactive and no meta release, with a note
  sounding and the volume 0, exactly one message is sent, the note-off of the sounding
  note with velocity 0 on channel 0; the four caches keep their values and no note
  sounds afterwards.
\<close>

theorem breath_stop_tick:
  assumes "panic_pin inp = HIGH" "meta_pin inp = LOW \<or> \<not> metaMode s"
    "currentNote s \<noteq> - 1" "getVolume inp = 0"
  shows "emitted m inp s = [NoteOff 0 (currentNote s) 0]
         \<and> currentPitchBend (loop m inp s) = currentPitchBend s
         \<and> currentVolume (loop m inp s) = currentVolume s
         \<and> currentXValue (loop m inp s) = currentXValue s
         \<and> currentYValue (loop m inp s) = currentYValue s
         \<and> currentNote (loop m inp s) = - 1"
proof -
  have n: "currentNote (loop_meta inp s) \<noteq> - 1" using assms(3) by (simp add: loop_meta_eq)
  have e: "new_events s (loop_meta inp s) = []" using assms(2) by (auto simp: loop_meta_events)
  have l: "loop_note m inp (loop_meta inp s) =
           (loop_meta inp s)\<lparr>currentNote := - 1,
              out := out (loop_meta inp s) @ [NoteOff 0 (currentNote (loop_meta inp s)) 0]\<rparr>"
    using n assms(4) by (simp add: loop_note_eq)
  show ?thesis
    using assms(1)
    by (simp add: emitted_eq loop_fields e l)
qed

text \<open>
  The breath stops while note 48 sounds, an instance of the theorem for C10.
\<close>

theorem breath_stop_tick_witness:
  "panic_pin idle_inputs = HIGH
   \<and> \<not> metaMode (initial_state\<lparr>currentNote := 48\<rparr>)
   \<and> currentNote (initial_state\<lparr>currentNote := 48\<rparr>) \<noteq> - 1
   \<and> getVolume idle_inputs = 0
   \<and> emitted erased_memory idle_inputs (initial_state\<lparr>currentNote := 48\<rparr>) = [NoteOff 0 48 0]"
proof -
  have h: "panic_pin idle_inputs = HIGH"
    "meta_pin idle_inputs = LOW \<or> \<not> metaMode (initial_state\<lparr>currentNote := 48\<rparr>)"
    "currentNote (initial_state\<lparr>currentNote := 48\<rparr>) \<noteq> - 1"
    "getVolume idle_inputs = 0"
    by (simp_all add: idle_inputs_def initial_state_def getVolume_def
        getVolumeFromBreathSensor_def NOTE_ON_VOLUME_THRESHOLD_def)
  from breath_stop_tick [OF h, of erased_memory] h
  show ?thesis by (simp add: initial_state_def)
qed




section \<open>The caches and the messages sent\<close>

lemma last_sent_append:
  "last_sent p (xs @ ys) = (case last_sent p ys of Some v \<Rightarrow> Some v | None \<Rightarrow> last_sent p xs)"
  by (induction xs) (auto split: option.splits)

lemma last_sent_when_sent: "last_sent p (when_sent b e) = (if b then p e else None)"
  by (simp add: when_sent_def)

lemma last_sent_none: "(\<And>e. e \<in> set es \<Longrightarrow> p e = None) \<Longrightarrow> last_sent p es = None"
  by (induction es) auto

lemma last_sent_all_note_offs:
  "last_sent pitch_bend_of all_note_offs = None"
  "last_sent (cc_of n) all_note_offs = None"
  by (rule last_sent_none, auto simp: in_all_note_offs)+

lemma tracked_other_fields [simp]:
  "caches_track_sent (s\<lparr>currentNote := n\<rparr>) = caches_track_sent s"
  "caches_track_sent (s\<lparr>ccSendTime := t\<rparr>) = caches_track_sent s"
  "caches_track_sent (s\<lparr>metaMode := a\<rparr>) = caches_track_sent s"
  "caches_track_sent (s\<lparr>metaValue := b\<rparr>) = caches_track_sent s"
  by (simp_all add: caches_track_sent_def)

lemma tracked_sendNoteOn:
  "caches_track_sent s \<Longrightarrow> caches_track_sent (sendNoteOn n v c DEBUG s)"
  by (simp add: caches_track_sent_def sendNoteOn_DEBUG last_sent_append)

lemma tracked_sendNoteOff:
  "caches_track_sent s \<Longrightarrow> caches_track_sent (sendNoteOff n v c DEBUG s)"
  by (simp add: caches_track_sent_def sendNoteOff_DEBUG last_sent_append)

lemma tracked_sendMetaCommand:
  "caches_track_sent s \<Longrightarrow> caches_track_sent (sendMetaCommand c v s)"
  by (simp add: caches_track_sent_def sendMetaCommand_eq last_sent_append)

lemma tracked_sendPitchBend:
  "caches_track_sent s \<Longrightarrow> caches_track_sent (sendPitchBend pb DEBUG s)"
  by (simp add: caches_track_sent_def sendPitchBend_DEBUG last_sent_append when_sent_def
      when_set_def)

lemma tracked_sendBreathController:
  "caches_track_sent s \<Longrightarrow> caches_track_sent (sendBreathController v c DEBUG s)"
  by (simp add: caches_track_sent_def sendBreathController_DEBUG last_sent_append when_sent_def
      when_set_def cc_numbers)

lemma tracked_sendXYControllers:
  "caches_track_sent s \<Longrightarrow> caches_track_sent (sendXYControllers x y c DEBUG s)"
  by (simp add: caches_track_sent_def sendXYControllers_DEBUG last_sent_append when_sent_def
      when_set_def cc_numbers)

lemma tracked_allNotesOff:
  "caches_track_sent s \<Longrightarrow> caches_track_sent (allNotesOff s)"
  by (simp add: caches_track_sent_def allNotesOff_eq last_sent_append last_sent_all_note_offs)

lemma tracked_loop_panic:
  "caches_track_sent s \<Longrightarrow> caches_track_sent (loop_panic inp s)"
  by (simp add: loop_panic_def tracked_allNotesOff)

lemma tracked_loop_meta:
  "caches_track_sent s \<Longrightarrow> caches_track_sent (loop_meta inp s)"
  by (simp add: loop_meta_def Let_def tracked_sendMetaCommand)

lemma tracked_loop_note:
  "caches_track_sent s \<Longrightarrow> caches_track_sent (loop_note m inp s)"
  by (simp add: loop_note_def Let_def tracked_sendNoteOn tracked_sendNoteOff
      tracked_sendPitchBend tracked_sendBreathController tracked_sendXYControllers)

lemma tracked_loop:
  "caches_track_sent s \<Longrightarrow> caches_track_sent (loop m inp s)"
  by (simp add: loop_def tracked_loop_panic tracked_loop_meta tracked_loop_note)

lemma tracked_run:
  "caches_track_sent s \<Longrightarrow> caches_track_sent (run m inps s)"
  by (induction inps arbitrary: s) (simp_all add: tracked_loop)

lemma tracked_initial: "caches_track_sent initial_state"
  by (simp add: caches_track_sent_def initial_state_def)

lemma sendPitchBend_cases:
  "sendPitchBend pb DEBUG s = s
   \<or> sendPitchBend pb DEBUG s = s\<lparr>currentPitchBend := pb, out := out s @ [PitchBend pb]\<rparr>"
  by (simp add: sendPitchBend_DEBUG when_sent_def when_set_def)

lemma sendPitchBend_not_touching: "sendPitchBend (- 1) DEBUG s = s"
  by (simp add: sendPitchBend_DEBUG when_sent_def when_set_def)

lemma sendBreathController_cases:
  "sendBreathController v c DEBUG s = s
   \<or> sendBreathController v c DEBUG s
       = s\<lparr>currentVolume := v, out := out s @ [CC c MIDI_BREATH_CC v]\<rparr>"
  by (simp add: sendBreathController_DEBUG when_sent_def when_set_def)

lemma sendXYControllers_cases:
  "sendXYControllers x y c DEBUG s = s
   \<or> sendXYControllers x y c DEBUG s
       = s\<lparr>currentXValue := mapped x, out := out s @ [CC c X_CC (mapped x)]\<rparr>
   \<or> sendXYControllers x y c DEBUG s
       = s\<lparr>currentYValue := mapped y, out := out s @ [CC c Y_CC (mapped y)]\<rparr>
   \<or> sendXYControllers x y c DEBUG s
       = s\<lparr>currentXValue := mapped x, currentYValue := mapped y,
           out := out s @ [CC c X_CC (mapped x), CC c Y_CC (mapped y)]\<rparr>"
  by (simp add: sendXYControllers_DEBUG when_sent_def when_set_def)

text \<open>
  C9. Each send function either leaves the state as it is or appends its message and
  stores the value of the message in the cache of the signal, and nothing else; a pitch
  bend of -1 (the slide not touched) leaves the state as it is. Hence the invariant that
  each cache holds the value of the last message sent for its signal (its initial value
  before the first one) is kept by every operation that sends, by a pass of \<open>loop\<close>
  and by any run of passes, and it holds in the initial state.
\<close>

theorem caches_equal_last_sent:
  "(sendPitchBend pb DEBUG s = s
    \<or> sendPitchBend pb DEBUG s = s\<lparr>currentPitchBend := pb, out := out s @ [PitchBend pb]\<rparr>)
   \<and> sendPitchBend (- 1) DEBUG s = s
   \<and> (sendBreathController v c DEBUG s = s
      \<or> sendBreathController v c DEBUG s
          = s\<lparr>currentVolume := v, out := out s @ [CC c MIDI_BREATH_CC v]\<rparr>)
   \<and> (sendXYControllers x y c DEBUG s = s
      \<or> sendXYControllers x y c DEBUG s
          = s\<lparr>currentXValue := mapped x, out := out s @ [CC c X_CC (mapped x)]\<rparr>
      \<or> sendXYControllers x y c DEBUG s
          = s\<lparr>currentYValue := mapped y, out := out s @ [CC c Y_CC (mapped y)]\<rparr>
      \<or> sendXYControllers x y c DEBUG s
          = s\<lparr>currentXValue := mapped x, currentYValue := mapped y,
              out := out s @ [CC c X_CC (mapped x), CC c Y_CC (mapped y)]\<rparr>)
   \<and> (caches_track_sent s \<longrightarrow>
        caches_track_sent (sendPitchBend pb DEBUG s)
        \<and> caches_track_sent (sendBreathController v c DEBUG s)
        \<and> caches_track_sent (sendXYControllers x y c DEBUG s)
        \<and> caches_track_sent (sendNoteOn n vel c DEBUG s)
        \<and> caches_track_sent (sendNoteOff n vel c DEBUG s)
        \<and> caches_track_sent (allNotesOff s)
        \<and> caches_track_sent (sendMetaCommand c val s)
        \<and> caches_track_sent (loop m inp s)
        \<and> caches_track_sent (run m inps s))
   \<and> caches_track_sent initial_state"
  using sendPitchBend_cases [of pb s] sendPitchBend_not_touching [of s]
    sendBreathController_cases [of v c s] sendXYControllers_cases [of x y c s]
    tracked_sendPitchBend [of s pb] tracked_sendBreathController [of s v c]
    tracked_sendXYControllers [of s x y c] tracked_sendNoteOn [of s n vel c]
    tracked_sendNoteOff [of s n vel c] tracked_allNotesOff [of s]
    tracked_sendMetaCommand [of s c val] tracked_loop [of s m inp] tracked_run [of s m inps]
    tracked_initial
  by blast

text \<open>
  Two passes from the initial state, an instance of the theorem for C9: the breath cache
  holds 69, the value of the last breath message.
\<close>

theorem caches_equal_last_sent_witness:
  "caches_track_sent initial_state
   \<and> caches_track_sent
       (run erased_memory
          [idle_inputs\<lparr>breath_raw := 80\<rparr>, idle_inputs\<lparr>breath_raw := 300, slide_raw := 200\<rparr>]
          initial_state)
   \<and> currentVolume
       (run erased_memory
          [idle_inputs\<lparr>breath_raw := 80\<rparr>, idle_inputs\<lparr>breath_raw := 300, slide_raw := 200\<rparr>]
          initial_state) = 69
   \<and> last_sent (cc_of MIDI_BREATH_CC)
       (out (run erased_memory
          [idle_inputs\<lparr>breath_raw := 80\<rparr>, idle_inputs\<lparr>breath_raw := 300, slide_raw := 200\<rparr>]
          initial_state)) = Some 69
   \<and> currentPitchBend
       (run erased_memory
          [idle_inputs\<lparr>breath_raw := 80\<rparr>, idle_inputs\<lparr>breath_raw := 300, slide_raw := 200\<rparr>]
          initial_state) = 5965"
proof -
  have i: "caches_track_sent initial_state"
    using caches_equal_last_sent by blast
  have r: "caches_track_sent
       (run erased_memory
          [idle_inputs\<lparr>breath_raw := 80\<rparr>, idle_inputs\<lparr>breath_raw := 300, slide_raw := 200\<rparr>]
          initial_state)"
    using i caches_equal_last_sent [of _ initial_state] by blast
  have e: "currentVolume
       (run erased_memory
          [idle_inputs\<lparr>breath_raw := 80\<rparr>, idle_inputs\<lparr>breath_raw := 300, slide_raw := 200\<rparr>]
          initial_state) = 69
   \<and> last_sent (cc_of MIDI_BREATH_CC)
       (out (run erased_memory
          [idle_inputs\<lparr>breath_raw := 80\<rparr>, idle_inputs\<lparr>breath_raw := 300, slide_raw := 200\<rparr>]
          initial_state)) = Some 69
   \<and> currentPitchBend
       (run erased_memory
          [idle_inputs\<lparr>breath_raw := 80\<rparr>, idle_inputs\<lparr>breath_raw := 300, slide_raw := 200\<rparr>]
          initial_state) = 5965"
    by code_simp
  show ?thesis using i r e by blast
qed

section \<open>The change gate\<close>

lemma sent_count_append [simp]: "sent_count p (xs @ ys) = sent_count p xs + sent_count p ys"
  by (simp add: sent_count_def)

lemma sent_count_Nil [simp]: "sent_count p [] = 0"
  by (simp add: sent_count_def)

lemma sent_count_single [simp]: "sent_count p [e] = (if p e = None then 0 else 1)"
  by (simp add: sent_count_def)

lemma sent_count_when_sent [simp]:
  "sent_count p (when_sent b e) = (if b \<and> p e \<noteq> None then 1 else 0)"
  by (simp add: when_sent_def)

lemma sent_count_none: "(\<And>e. e \<in> set es \<Longrightarrow> p e = None) \<Longrightarrow> sent_count p es = 0"
  by (simp add: sent_count_def filter_empty_conv)

lemma sent_count_all_note_offs [simp]:
  "sent_count pitch_bend_of all_note_offs = 0"
  "sent_count (cc_of n) all_note_offs = 0"
  by (rule sent_count_none, auto simp: in_all_note_offs)+

lemma sent_count_Cons [simp]:
  "sent_count p (e # es) = (if p e = None then 0 else 1) + sent_count p es"
  by (simp add: sent_count_def)

text \<open>
  A signal whose candidate value is \<open>cand\<close> and whose cache is \<open>cache\<close>: when every pass
  sends at most one message for it, leaves the cache alone when it sends none, sets the
  cache to the candidate when it sends one, and sends none when the candidate is within
  the threshold of the cache, then a run whose candidates stay within the threshold of
  the cache sends none, and a run with one candidate throughout sends at most one.
\<close>

lemma run_near_sends_none:
  fixes cache :: "state \<Rightarrow> int" and cand :: "inputs \<Rightarrow> int"
  assumes inv: "\<And>s inp. I s \<Longrightarrow> I (loop m inp s)"
    and keep: "\<And>s inp. I s \<Longrightarrow> sent_count p (emitted m inp s) = 0 \<Longrightarrow>
                cache (loop m inp s) = cache s"
    and near: "\<And>s inp. I s \<Longrightarrow> \<bar>cand inp - cache s\<bar> \<le> T \<Longrightarrow>
                sent_count p (emitted m inp s) = 0"
  shows "I s \<Longrightarrow> \<forall>i\<in>set inps. \<bar>cand i - cache s\<bar> \<le> T \<Longrightarrow>
         sent_count p (new_events s (run m inps s)) = 0"
proof (induction inps arbitrary: s)
  case Nil
  show ?case by simp
next
  case (Cons inp inps)
  have z: "sent_count p (emitted m inp s) = 0" using Cons.prems by (intro near) simp_all
  have c: "cache (loop m inp s) = cache s" using Cons.prems(1) z by (rule keep)
  have "sent_count p (new_events (loop m inp s) (run m inps (loop m inp s))) = 0"
    using Cons.prems c by (intro Cons.IH inv) simp_all
  then show ?case using z by (simp add: run_events_Cons)
qed

lemma run_same_sends_once:
  fixes cache :: "state \<Rightarrow> int" and cand :: "inputs \<Rightarrow> int"
  assumes inv: "\<And>s inp. I s \<Longrightarrow> I (loop m inp s)"
    and one: "\<And>s inp. I s \<Longrightarrow> sent_count p (emitted m inp s) \<le> 1"
    and keep: "\<And>s inp. I s \<Longrightarrow> sent_count p (emitted m inp s) = 0 \<Longrightarrow>
                cache (loop m inp s) = cache s"
    and sets: "\<And>s inp. I s \<Longrightarrow> sent_count p (emitted m inp s) \<noteq> 0 \<Longrightarrow>
                cache (loop m inp s) = cand inp"
    and near: "\<And>s inp. I s \<Longrightarrow> \<bar>cand inp - cache s\<bar> \<le> T \<Longrightarrow>
                sent_count p (emitted m inp s) = 0"
    and T: "0 \<le> T"
  shows "I s \<Longrightarrow> \<forall>i\<in>set inps. cand i = v \<Longrightarrow>
         sent_count p (new_events s (run m inps s)) \<le> 1"
proof (induction inps arbitrary: s)
  case Nil
  show ?case by simp
next
  case (Cons inp inps)
  show ?case
  proof (cases "sent_count p (emitted m inp s) = 0")
    case True
    have "sent_count p (new_events (loop m inp s) (run m inps (loop m inp s))) \<le> 1"
      using Cons.prems by (intro Cons.IH inv) simp_all
    then show ?thesis using True by (simp add: run_events_Cons)
  next
    case False
    have c: "cache (loop m inp s) = v" using sets [OF Cons.prems(1) False] Cons.prems(2) by simp
    have "sent_count p (new_events (loop m inp s) (run m inps (loop m inp s))) = 0"
    proof (rule run_near_sends_none [where I = I and cache = cache and cand = cand and T = T])
      show "I (loop m inp s)" using Cons.prems(1) by (rule inv)
      show "\<forall>i\<in>set inps. \<bar>cand i - cache (loop m inp s)\<bar> \<le> T"
        using Cons.prems(2) c T by simp
    qed (use inv keep near in blast)+
    then show ?thesis using one [OF Cons.prems(1), of inp] by (simp add: run_events_Cons)
  qed
qed

text \<open>What one pass does for each of the four signals.\<close>

lemma pass_pitch_bend:
  "sent_count pitch_bend_of (emitted m inp s) = 0
     \<and> currentPitchBend (loop m inp s) = currentPitchBend s
   \<or> sent_count pitch_bend_of (emitted m inp s) = 1
     \<and> currentPitchBend (loop m inp s) = getPitchBend inp s
     \<and> exceeds PB_SEND_THRESHOLD (currentPitchBend s) (getPitchBend inp s)"
  by (simp add: emitted_eq loop_fields loop_meta_events loop_note_eq when_set_def)

lemma pass_breath:
  "sent_count (cc_of MIDI_BREATH_CC) (emitted m inp s) = 0
     \<and> currentVolume (loop m inp s) = currentVolume s
   \<or> sent_count (cc_of MIDI_BREATH_CC) (emitted m inp s) = 1
     \<and> currentVolume (loop m inp s) = getVolume inp
     \<and> exceeds VOLUME_SEND_THRESHOLD (currentVolume s) (getVolume inp)"
  by (simp add: emitted_eq loop_fields loop_meta_events loop_note_eq when_set_def cc_numbers)

lemma pass_x:
  "sent_count (cc_of X_CC) (emitted m inp s) = 0
     \<and> currentXValue (loop m inp s) = currentXValue s
   \<or> sent_count (cc_of X_CC) (emitted m inp s) = 1
     \<and> currentXValue (loop m inp s) = mapped (getXValue inp)
     \<and> exceeds VOLUME_SEND_THRESHOLD (currentXValue s) (mapped (getXValue inp))"
  by (simp add: emitted_eq loop_fields loop_meta_events loop_note_eq when_set_def cc_numbers)

lemma pass_y:
  "sent_count (cc_of Y_CC) (emitted m inp s) = 0
     \<and> currentYValue (loop m inp s) = currentYValue s
   \<or> sent_count (cc_of Y_CC) (emitted m inp s) = 1
     \<and> currentYValue (loop m inp s) = mapped (getYValue inp)
     \<and> exceeds VOLUME_SEND_THRESHOLD (currentYValue s) (mapped (getYValue inp))"
  by (simp add: emitted_eq loop_fields loop_meta_events loop_note_eq when_set_def cc_numbers)

text \<open>Runs of passes, signal by signal.\<close>

lemma run_pitch_bend_near:
  assumes "\<forall>i\<in>set inps. \<bar>getPitchBend i s - currentPitchBend s\<bar> \<le> PB_SEND_THRESHOLD"
  shows "sent_count pitch_bend_of (new_events s (run m inps s)) = 0"
proof (rule run_near_sends_none
    [where I = "\<lambda>t. slide_quant_mode t = slide_quant_mode s" and cache = currentPitchBend
      and cand = "\<lambda>i. getPitchBend i s" and T = PB_SEND_THRESHOLD])
  fix t :: state and inp :: inputs assume q: "slide_quant_mode t = slide_quant_mode s"
  show "slide_quant_mode (loop m inp t) = slide_quant_mode s" using q by (simp add: loop_quant)
  show "currentPitchBend (loop m inp t) = currentPitchBend t"
    if "sent_count pitch_bend_of (emitted m inp t) = 0"
    using pass_pitch_bend [of m inp t] that by simp
  show "sent_count pitch_bend_of (emitted m inp t) = 0"
    if "\<bar>getPitchBend inp s - currentPitchBend t\<bar> \<le> PB_SEND_THRESHOLD"
    using pass_pitch_bend [of m inp t] near_not_exceeds(1) [OF that] getPitchBend_quant [OF q, of inp]
    by auto
qed (use assms in simp_all)

lemma run_pitch_bend_once:
  assumes "\<forall>i\<in>set inps. slide_raw i = r"
  shows "sent_count pitch_bend_of (new_events s (run m inps s)) \<le> 1"
proof (rule run_same_sends_once
    [where I = "\<lambda>t. slide_quant_mode t = slide_quant_mode s" and cache = currentPitchBend
      and cand = "\<lambda>i. getPitchBend i s" and T = PB_SEND_THRESHOLD
      and v = "getPitchBend (idle_inputs\<lparr>slide_raw := r\<rparr>) s"])
  fix t :: state and inp :: inputs assume q: "slide_quant_mode t = slide_quant_mode s"
  show "slide_quant_mode (loop m inp t) = slide_quant_mode s" using q by (simp add: loop_quant)
  show "sent_count pitch_bend_of (emitted m inp t) \<le> 1"
    using pass_pitch_bend [of m inp t] by auto
  show "currentPitchBend (loop m inp t) = currentPitchBend t"
    if "sent_count pitch_bend_of (emitted m inp t) = 0"
    using pass_pitch_bend [of m inp t] that by simp
  show "currentPitchBend (loop m inp t) = getPitchBend inp s"
    if "sent_count pitch_bend_of (emitted m inp t) \<noteq> 0"
    using pass_pitch_bend [of m inp t] that getPitchBend_quant [OF q, of inp] by auto
  show "sent_count pitch_bend_of (emitted m inp t) = 0"
    if "\<bar>getPitchBend inp s - currentPitchBend t\<bar> \<le> PB_SEND_THRESHOLD"
    using pass_pitch_bend [of m inp t] near_not_exceeds(1) [OF that] getPitchBend_quant [OF q, of inp]
    by auto
next
  show "0 \<le> PB_SEND_THRESHOLD" by (simp add: PB_SEND_THRESHOLD_def)
  show "slide_quant_mode s = slide_quant_mode s" by simp
  show "\<forall>i\<in>set inps. getPitchBend i s = getPitchBend (idle_inputs\<lparr>slide_raw := r\<rparr>) s"
    using assms by (simp add: getPitchBend_def getPitchBendFromLinearPot_def Let_def)
qed

lemma run_breath_near:
  assumes "\<forall>i\<in>set inps. \<bar>getVolume i - currentVolume s\<bar> \<le> VOLUME_SEND_THRESHOLD"
  shows "sent_count (cc_of MIDI_BREATH_CC) (new_events s (run m inps s)) = 0"
proof (rule run_near_sends_none
    [where I = "\<lambda>t. True" and cache = currentVolume and cand = getVolume
      and T = VOLUME_SEND_THRESHOLD])
  fix t :: state and inp :: inputs
  show "currentVolume (loop m inp t) = currentVolume t"
    if "sent_count (cc_of MIDI_BREATH_CC) (emitted m inp t) = 0"
    using pass_breath [of m inp t] that by simp
  show "sent_count (cc_of MIDI_BREATH_CC) (emitted m inp t) = 0"
    if "\<bar>getVolume inp - currentVolume t\<bar> \<le> VOLUME_SEND_THRESHOLD"
    using pass_breath [of m inp t] near_not_exceeds(2) [OF that] by auto
qed (use assms in simp_all)

lemma run_breath_once:
  assumes "\<forall>i\<in>set inps. breath_raw i = r"
  shows "sent_count (cc_of MIDI_BREATH_CC) (new_events s (run m inps s)) \<le> 1"
proof (rule run_same_sends_once
    [where I = "\<lambda>t. True" and cache = currentVolume and cand = getVolume
      and T = VOLUME_SEND_THRESHOLD and v = "getVolume (idle_inputs\<lparr>breath_raw := r\<rparr>)"])
  fix t :: state and inp :: inputs
  show "sent_count (cc_of MIDI_BREATH_CC) (emitted m inp t) \<le> 1"
    using pass_breath [of m inp t] by auto
  show "currentVolume (loop m inp t) = currentVolume t"
    if "sent_count (cc_of MIDI_BREATH_CC) (emitted m inp t) = 0"
    using pass_breath [of m inp t] that by simp
  show "currentVolume (loop m inp t) = getVolume inp"
    if "sent_count (cc_of MIDI_BREATH_CC) (emitted m inp t) \<noteq> 0"
    using pass_breath [of m inp t] that by auto
  show "sent_count (cc_of MIDI_BREATH_CC) (emitted m inp t) = 0"
    if "\<bar>getVolume inp - currentVolume t\<bar> \<le> VOLUME_SEND_THRESHOLD"
    using pass_breath [of m inp t] near_not_exceeds(2) [OF that] by auto
next
  show "0 \<le> VOLUME_SEND_THRESHOLD" by (simp add: VOLUME_SEND_THRESHOLD_def)
  show "\<forall>i\<in>set inps. getVolume i = getVolume (idle_inputs\<lparr>breath_raw := r\<rparr>)"
    using assms by (simp add: getVolume_def getVolumeFromBreathSensor_def Let_def)
qed simp_all

lemma run_x_near:
  assumes "\<forall>i\<in>set inps. \<bar>mapped (getXValue i) - currentXValue s\<bar> \<le> VOLUME_SEND_THRESHOLD"
  shows "sent_count (cc_of X_CC) (new_events s (run m inps s)) = 0"
proof (rule run_near_sends_none
    [where I = "\<lambda>t. True" and cache = currentXValue and cand = "\<lambda>i. mapped (getXValue i)"
      and T = VOLUME_SEND_THRESHOLD])
  fix t :: state and inp :: inputs
  show "currentXValue (loop m inp t) = currentXValue t"
    if "sent_count (cc_of X_CC) (emitted m inp t) = 0"
    using pass_x [of m inp t] that by simp
  show "sent_count (cc_of X_CC) (emitted m inp t) = 0"
    if "\<bar>mapped (getXValue inp) - currentXValue t\<bar> \<le> VOLUME_SEND_THRESHOLD"
    using pass_x [of m inp t] near_not_exceeds(2) [OF that] by auto
qed (use assms in simp_all)

lemma run_x_once:
  assumes "\<forall>i\<in>set inps. x_raw i = r"
  shows "sent_count (cc_of X_CC) (new_events s (run m inps s)) \<le> 1"
proof (rule run_same_sends_once
    [where I = "\<lambda>t. True" and cache = currentXValue and cand = "\<lambda>i. mapped (getXValue i)"
      and T = VOLUME_SEND_THRESHOLD and v = "mapped r"])
  fix t :: state and inp :: inputs
  show "sent_count (cc_of X_CC) (emitted m inp t) \<le> 1"
    using pass_x [of m inp t] by auto
  show "currentXValue (loop m inp t) = currentXValue t"
    if "sent_count (cc_of X_CC) (emitted m inp t) = 0"
    using pass_x [of m inp t] that by simp
  show "currentXValue (loop m inp t) = mapped (getXValue inp)"
    if "sent_count (cc_of X_CC) (emitted m inp t) \<noteq> 0"
    using pass_x [of m inp t] that by auto
  show "sent_count (cc_of X_CC) (emitted m inp t) = 0"
    if "\<bar>mapped (getXValue inp) - currentXValue t\<bar> \<le> VOLUME_SEND_THRESHOLD"
    using pass_x [of m inp t] near_not_exceeds(2) [OF that] by auto
next
  show "0 \<le> VOLUME_SEND_THRESHOLD" by (simp add: VOLUME_SEND_THRESHOLD_def)
  show "\<forall>i\<in>set inps. mapped (getXValue i) = mapped r"
    using assms by (simp add: getXValue_def)
qed simp_all

lemma run_y_near:
  assumes "\<forall>i\<in>set inps. \<bar>mapped (getYValue i) - currentYValue s\<bar> \<le> VOLUME_SEND_THRESHOLD"
  shows "sent_count (cc_of Y_CC) (new_events s (run m inps s)) = 0"
proof (rule run_near_sends_none
    [where I = "\<lambda>t. True" and cache = currentYValue and cand = "\<lambda>i. mapped (getYValue i)"
      and T = VOLUME_SEND_THRESHOLD])
  fix t :: state and inp :: inputs
  show "currentYValue (loop m inp t) = currentYValue t"
    if "sent_count (cc_of Y_CC) (emitted m inp t) = 0"
    using pass_y [of m inp t] that by simp
  show "sent_count (cc_of Y_CC) (emitted m inp t) = 0"
    if "\<bar>mapped (getYValue inp) - currentYValue t\<bar> \<le> VOLUME_SEND_THRESHOLD"
    using pass_y [of m inp t] near_not_exceeds(2) [OF that] by auto
qed (use assms in simp_all)

lemma run_y_once:
  assumes "\<forall>i\<in>set inps. y_raw i = r"
  shows "sent_count (cc_of Y_CC) (new_events s (run m inps s)) \<le> 1"
proof (rule run_same_sends_once
    [where I = "\<lambda>t. True" and cache = currentYValue and cand = "\<lambda>i. mapped (getYValue i)"
      and T = VOLUME_SEND_THRESHOLD and v = "mapped r"])
  fix t :: state and inp :: inputs
  show "sent_count (cc_of Y_CC) (emitted m inp t) \<le> 1"
    using pass_y [of m inp t] by auto
  show "currentYValue (loop m inp t) = currentYValue t"
    if "sent_count (cc_of Y_CC) (emitted m inp t) = 0"
    using pass_y [of m inp t] that by simp
  show "currentYValue (loop m inp t) = mapped (getYValue inp)"
    if "sent_count (cc_of Y_CC) (emitted m inp t) \<noteq> 0"
    using pass_y [of m inp t] that by auto
  show "sent_count (cc_of Y_CC) (emitted m inp t) = 0"
    if "\<bar>mapped (getYValue inp) - currentYValue t\<bar> \<le> VOLUME_SEND_THRESHOLD"
    using pass_y [of m inp t] near_not_exceeds(2) [OF that] by auto
next
  show "0 \<le> VOLUME_SEND_THRESHOLD" by (simp add: VOLUME_SEND_THRESHOLD_def)
  show "\<forall>i\<in>set inps. mapped (getYValue i) = mapped r"
    using assms by (simp add: getYValue_def)
qed simp_all

text \<open>The send functions themselves.\<close>

lemma gate_pitch_bend:
  "new_events s (sendPitchBend pb DEBUG s) \<noteq> [] \<Longrightarrow>
     new_events s (sendPitchBend pb DEBUG s) = [PitchBend pb]
     \<and> PB_SEND_THRESHOLD < \<bar>pb - currentPitchBend s\<bar>"
  by (auto simp: sendPitchBend_DEBUG when_sent_def dest: exceeds_far split: if_splits)

lemma gate_breath:
  "new_events s (sendBreathController v c DEBUG s) \<noteq> [] \<Longrightarrow>
     new_events s (sendBreathController v c DEBUG s) = [CC c MIDI_BREATH_CC v]
     \<and> VOLUME_SEND_THRESHOLD < \<bar>v - currentVolume s\<bar>"
  by (auto simp: sendBreathController_DEBUG when_sent_def dest: exceeds_far split: if_splits)

lemma gate_x:
  "CC c X_CC w \<in> set (new_events s (sendXYControllers x y c DEBUG s)) \<Longrightarrow>
     w = mapped x \<and> VOLUME_SEND_THRESHOLD < \<bar>mapped x - currentXValue s\<bar>"
  by (auto simp: sendXYControllers_DEBUG cc_numbers dest: exceeds_far)

lemma gate_y:
  "CC c Y_CC w \<in> set (new_events s (sendXYControllers x y c DEBUG s)) \<Longrightarrow>
     w = mapped y \<and> VOLUME_SEND_THRESHOLD < \<bar>mapped y - currentYValue s\<bar>"
  by (auto simp: sendXYControllers_DEBUG cc_numbers dest: exceeds_far)

lemma near_pitch_bend:
  "\<bar>pb - currentPitchBend s\<bar> \<le> PB_SEND_THRESHOLD \<Longrightarrow> sendPitchBend pb DEBUG s = s"
  by (simp add: sendPitchBend_DEBUG near_not_exceeds when_sent_def when_set_def)

lemma near_breath:
  "\<bar>v - currentVolume s\<bar> \<le> VOLUME_SEND_THRESHOLD \<Longrightarrow> sendBreathController v c DEBUG s = s"
  by (simp add: sendBreathController_DEBUG near_not_exceeds when_sent_def when_set_def)

lemma near_xy:
  "\<bar>mapped x - currentXValue s\<bar> \<le> VOLUME_SEND_THRESHOLD \<Longrightarrow>
   \<bar>mapped y - currentYValue s\<bar> \<le> VOLUME_SEND_THRESHOLD \<Longrightarrow>
   sendXYControllers x y c DEBUG s = s"
  by (simp add: sendXYControllers_DEBUG near_not_exceeds when_sent_def when_set_def)

text \<open>
  C6. A send function sends the message of a signal only if the candidate value differs
  from the cached one by more than the threshold of the signal, and does nothing at all
  when the candidates are within the thresholds. Consequently, over any run of passes, a
  signal whose candidates all stay within the threshold of the cached value is never
  sent, and a signal whose raw reading is the same in every pass is sent at most once.
\<close>

theorem change_gate_suppression:
  "(new_events s (sendPitchBend pb DEBUG s) \<noteq> [] \<longrightarrow>
      new_events s (sendPitchBend pb DEBUG s) = [PitchBend pb]
      \<and> PB_SEND_THRESHOLD < \<bar>pb - currentPitchBend s\<bar>)
   \<and> (new_events s (sendBreathController v c DEBUG s) \<noteq> [] \<longrightarrow>
        new_events s (sendBreathController v c DEBUG s) = [CC c MIDI_BREATH_CC v]
        \<and> VOLUME_SEND_THRESHOLD < \<bar>v - currentVolume s\<bar>)
   \<and> (CC c X_CC w \<in> set (new_events s (sendXYControllers x y c DEBUG s)) \<longrightarrow>
        w = mapped x \<and> VOLUME_SEND_THRESHOLD < \<bar>mapped x - currentXValue s\<bar>)
   \<and> (CC c Y_CC w \<in> set (new_events s (sendXYControllers x y c DEBUG s)) \<longrightarrow>
        w = mapped y \<and> VOLUME_SEND_THRESHOLD < \<bar>mapped y - currentYValue s\<bar>)
   \<and> (\<bar>pb - currentPitchBend s\<bar> \<le> PB_SEND_THRESHOLD \<longrightarrow> sendPitchBend pb DEBUG s = s)
   \<and> (\<bar>v - currentVolume s\<bar> \<le> VOLUME_SEND_THRESHOLD \<longrightarrow>
        sendBreathController v c DEBUG s = s)
   \<and> (\<bar>mapped x - currentXValue s\<bar> \<le> VOLUME_SEND_THRESHOLD
        \<and> \<bar>mapped y - currentYValue s\<bar> \<le> VOLUME_SEND_THRESHOLD \<longrightarrow>
        sendXYControllers x y c DEBUG s = s)
   \<and> ((\<forall>i\<in>set inps. \<bar>getPitchBend i s - currentPitchBend s\<bar> \<le> PB_SEND_THRESHOLD) \<longrightarrow>
        sent_count pitch_bend_of (new_events s (run m inps s)) = 0)
   \<and> ((\<forall>i\<in>set inps. \<bar>getVolume i - currentVolume s\<bar> \<le> VOLUME_SEND_THRESHOLD) \<longrightarrow>
        sent_count (cc_of MIDI_BREATH_CC) (new_events s (run m inps s)) = 0)
   \<and> ((\<forall>i\<in>set inps. \<bar>mapped (getXValue i) - currentXValue s\<bar> \<le> VOLUME_SEND_THRESHOLD) \<longrightarrow>
        sent_count (cc_of X_CC) (new_events s (run m inps s)) = 0)
   \<and> ((\<forall>i\<in>set inps. \<bar>mapped (getYValue i) - currentYValue s\<bar> \<le> VOLUME_SEND_THRESHOLD) \<longrightarrow>
        sent_count (cc_of Y_CC) (new_events s (run m inps s)) = 0)
   \<and> ((\<forall>i\<in>set inps. slide_raw i = r) \<longrightarrow>
        sent_count pitch_bend_of (new_events s (run m inps s)) \<le> 1)
   \<and> ((\<forall>i\<in>set inps. breath_raw i = r) \<longrightarrow>
        sent_count (cc_of MIDI_BREATH_CC) (new_events s (run m inps s)) \<le> 1)
   \<and> ((\<forall>i\<in>set inps. x_raw i = r) \<longrightarrow>
        sent_count (cc_of X_CC) (new_events s (run m inps s)) \<le> 1)
   \<and> ((\<forall>i\<in>set inps. y_raw i = r) \<longrightarrow>
        sent_count (cc_of Y_CC) (new_events s (run m inps s)) \<le> 1)"
  using gate_pitch_bend [of s pb] gate_breath [of s v c] gate_x [of c w s x y]
    gate_y [of c w s x y] near_pitch_bend [of pb s] near_breath [of v s c]
    near_xy [of x s y c]
    run_pitch_bend_near [of inps s m] run_breath_near [of inps s m] run_x_near [of inps s m]
    run_y_near [of inps s m] run_pitch_bend_once [of inps r s m] run_breath_once [of inps r s m]
    run_x_once [of inps r s m] run_y_once [of inps r s m]
  by blast

text \<open>
  A pitch bend far from the cache, one near it, and three passes with the same breath,
  instances of the theorem for C6.
\<close>

theorem change_gate_suppression_witness:
  "new_events initial_state (sendPitchBend 5965 DEBUG initial_state) = [PitchBend 5965]
   \<and> PB_SEND_THRESHOLD < \<bar>5965 - currentPitchBend initial_state\<bar>
   \<and> \<bar>8185 - currentPitchBend initial_state\<bar> \<le> PB_SEND_THRESHOLD
   \<and> sendPitchBend 8185 DEBUG initial_state = initial_state
   \<and> sent_count (cc_of MIDI_BREATH_CC)
        (new_events initial_state
           (run erased_memory
              [idle_inputs\<lparr>breath_raw := 80\<rparr>, idle_inputs\<lparr>breath_raw := 80\<rparr>,
               idle_inputs\<lparr>breath_raw := 80\<rparr>]
              initial_state)) \<le> 1
   \<and> sent_count (cc_of MIDI_BREATH_CC)
        (new_events initial_state
           (run erased_memory
              [idle_inputs\<lparr>breath_raw := 80\<rparr>, idle_inputs\<lparr>breath_raw := 80\<rparr>,
               idle_inputs\<lparr>breath_raw := 80\<rparr>]
              initial_state)) = 1"
proof -
  have sent: "new_events initial_state (sendPitchBend 5965 DEBUG initial_state) \<noteq> []"
    by code_simp
  have near: "\<bar>8185 - currentPitchBend initial_state\<bar> \<le> PB_SEND_THRESHOLD"
    by code_simp
  have same: "\<forall>i\<in>set [idle_inputs\<lparr>breath_raw := 80\<rparr>, idle_inputs\<lparr>breath_raw := 80\<rparr>,
               idle_inputs\<lparr>breath_raw := 80\<rparr>]. breath_raw i = 80"
    by simp
  have one: "sent_count (cc_of MIDI_BREATH_CC)
        (new_events initial_state
           (run erased_memory
              [idle_inputs\<lparr>breath_raw := 80\<rparr>, idle_inputs\<lparr>breath_raw := 80\<rparr>,
               idle_inputs\<lparr>breath_raw := 80\<rparr>]
              initial_state)) = 1"
    by code_simp
  from change_gate_suppression [where s = initial_state and pb = 5965] sent
  have a: "new_events initial_state (sendPitchBend 5965 DEBUG initial_state) = [PitchBend 5965]
           \<and> PB_SEND_THRESHOLD < \<bar>5965 - currentPitchBend initial_state\<bar>"
    by blast
  from change_gate_suppression [where s = initial_state and pb = 8185] near
  have b: "sendPitchBend 8185 DEBUG initial_state = initial_state"
    by blast
  from change_gate_suppression
    [where s = initial_state and m = erased_memory and r = 80
       and inps = "[idle_inputs\<lparr>breath_raw := 80\<rparr>, idle_inputs\<lparr>breath_raw := 80\<rparr>,
               idle_inputs\<lparr>breath_raw := 80\<rparr>]"] same
  have c: "sent_count (cc_of MIDI_BREATH_CC)
        (new_events initial_state
           (run erased_memory
              [idle_inputs\<lparr>breath_raw := 80\<rparr>, idle_inputs\<lparr>breath_raw := 80\<rparr>,
               idle_inputs\<lparr>breath_raw := 80\<rparr>]
              initial_state)) \<le> 1"
    by blast
  show ?thesis using a b c near one by blast
qed

end
